theory Spec2Isabelle
  imports Complex_Main "HOL-Library.Multiset" "HOL-Library.Log_Nat"
begin

section \<open>Tensor primitives used by the head\<close>

text \<open>
  The head in \<^verbatim>\<open>mmdet/models/anchor_heads/ppdet_head.py\<close> works on torch tensors.
  Floating-point numbers are modelled by \<^typ>\<open>real\<close>, Python and int64 integers by
  \<^typ>\<open>int\<close>, sizes by \<^typ>\<open>nat\<close>. A raise of the source is a value \<open>Inl e\<close>.
\<close>

datatype error = AssertionError | IndexError | RuntimeError | ValueError

definition bindE :: "error + 'a \<Rightarrow> ('a \<Rightarrow> error + 'b) \<Rightarrow> error + 'b" where
  "bindE m f = (case m of Inl e \<Rightarrow> Inl e | Inr v \<Rightarrow> f v)"

text \<open>\<^verbatim>\<open>t.clamp(min=lo, max=hi)\<close>: the lower bound first, then the upper one, so
  that \<open>hi\<close> wins when \<open>hi < lo\<close>.\<close>

definition clamp :: "'a::linorder \<Rightarrow> 'a \<Rightarrow> 'a \<Rightarrow> 'a" where
  "clamp lo hi v = min (max v lo) hi"

definition sigmoid :: "real \<Rightarrow> real" where
  "sigmoid v = 1 / (1 + exp (- v))"

text \<open>
  Where an integer is read off a floating-point value, rounding decides the result, and
  the arithmetic is modelled as the machine does it: \<open>f32\<close> rounds a real to the nearest
  float32 and \<open>f64\<close> to the nearest double, ties to the even significand, with the
  subnormal range; a result beyond the largest finite value is left open. This is used
  for the bounds of the positive region, lines 312-323; elsewhere a tensor element is a
  real.
\<close>

definition pow2 :: "int \<Rightarrow> real" where
  "pow2 k = (if 0 \<le> k then 2 ^ nat k else 1 / 2 ^ nat (- k))"

text \<open>The exponent \<open>e\<close> of the binade of \<open>x\<close>, \<open>2 ^ e \<le> \<bar>x\<bar> < 2 ^ (e + 1)\<close>, from the number
  of bits of the integer part of \<open>\<bar>x\<bar>\<close>, or of \<open>1 / \<bar>x\<bar>\<close> below 1.\<close>

definition binade :: "real \<Rightarrow> int" where
  "binade x = (if 1 \<le> \<bar>x\<bar> then int (floorlog 2 (nat \<lfloor>\<bar>x\<bar>\<rfloor>)) - 1
               else - int (floorlog 2 (nat \<lceil>1 / \<bar>x\<bar>\<rceil> - 1)))"

definition rne :: "real \<Rightarrow> int" where
  "rne q = (let f = \<lfloor>q\<rfloor>; r = q - of_int f
            in if r < 1 / 2 then f else if 1 / 2 < r then f + 1
               else if even f then f else f + 1)"

definition round_binary :: "int \<Rightarrow> int \<Rightarrow> int \<Rightarrow> real \<Rightarrow> real" where
  "round_binary p emin emax x =
     (if x = 0 then 0
      else let e = max emin (binade x);
               u = pow2 (e - (p - 1));
               y = of_int (rne (x / u)) * u
           in if \<bar>y\<bar> < pow2 (emax + 1) then y else undefined x)"

definition f32 :: "real \<Rightarrow> real" where
  "f32 = round_binary 24 (- 126) 127"

definition f64 :: "real \<Rightarrow> real" where
  "f64 = round_binary 53 (- 1022) 1023"

text \<open>\<^verbatim>\<open>.long()\<close> of a float32 value: truncation towards zero. Outside the range of
  int64 the conversion is undefined in C++ and differs between machines; the model
  leaves the value open.\<close>

definition to_long :: "real \<Rightarrow> int" where
  "to_long v =
     (if - (2 ^ 63) \<le> v \<and> v < 2 ^ 63 then (if 0 \<le> v then \<lfloor>v\<rfloor> else \<lceil>v\<rceil>)
      else undefined v)"

text \<open>A tensor of shape \<open>[C, H, W]\<close> (one image of one level) and one of shape
  \<open>[B, C, H, W]\<close> (a batch of one level).\<close>

record tensor3 =
  chan3 :: nat
  rows3 :: nat
  cols3 :: nat
  elems3 :: "nat \<Rightarrow> nat \<Rightarrow> nat \<Rightarrow> real"

record tensor4 =
  batch4 :: nat
  chan4 :: nat
  rows4 :: nat
  cols4 :: nat
  elems4 :: "nat \<Rightarrow> nat \<Rightarrow> nat \<Rightarrow> nat \<Rightarrow> real"

text \<open>The cells \<open>(y, x)\<close> of an \<open>H \<times> W\<close> grid in row-major order.\<close>

definition cells :: "nat \<Rightarrow> nat \<Rightarrow> (nat \<times> nat) list" where
  "cells H W = List.product [0..<H] [0..<W]"

text \<open>The elements of \<^verbatim>\<open>t.permute(1, 2, 0)\<close> and of \<^verbatim>\<open>t.permute(0, 2, 3, 1)\<close>
  in memory order.\<close>

definition permute_120 :: "tensor3 \<Rightarrow> real list" where
  "permute_120 t =
     concat (map (\<lambda>(y, x). map (\<lambda>c. elems3 t c y x) [0..<chan3 t]) (cells (rows3 t) (cols3 t)))"

definition permute_0231 :: "tensor4 \<Rightarrow> real list" where
  "permute_0231 t =
     concat (map (\<lambda>b. concat (map (\<lambda>(y, x). map (\<lambda>c. elems4 t b c y x) [0..<chan4 t])
                                   (cells (rows4 t) (cols4 t))))
                 [0..<batch4 t])"

definition chunks :: "nat \<Rightarrow> 'a list \<Rightarrow> 'a list list" where
  "chunks n xs = map (\<lambda>i. take n (drop (i * n) xs)) [0..<length xs div n]"

text \<open>\<^verbatim>\<open>.reshape(-1, k)\<close> of a flat element list: it raises unless \<open>k\<close> is positive
  and divides the number of elements.\<close>

definition reshape_rows :: "int \<Rightarrow> 'a list \<Rightarrow> error + 'a list list" where
  "reshape_rows k xs =
     (if k \<le> 0 \<or> int (length xs) mod k \<noteq> 0 then Inl RuntimeError
      else Inr (chunks (nat k) xs))"

text \<open>\<^verbatim>\<open>t[inds]\<close> for a list of indices.\<close>

definition index_select :: "'a list \<Rightarrow> nat list \<Rightarrow> error + 'a list" where
  "index_select xs inds =
     (if \<forall>i \<in> set inds. i < length xs then Inr (map (\<lambda>i. xs ! i) inds) else Inl IndexError)"

text \<open>An elementwise binary operation on two 1-D tensors, with torch's broadcasting of
  a tensor of length one.\<close>

definition bcast2 :: "('a \<Rightarrow> 'b \<Rightarrow> 'c) \<Rightarrow> 'a list \<Rightarrow> 'b list \<Rightarrow> error + 'c list" where
  "bcast2 f xs ys =
     (if length xs = length ys then Inr (map2 f xs ys)
      else if length xs = 1 then Inr (map (f (hd xs)) ys)
      else if length ys = 1 then Inr (map (\<lambda>a. f a (hd ys)) xs)
      else Inl RuntimeError)"

text \<open>\<^verbatim>\<open>torch.stack([a, b, c, d], -1)\<close> of four 1-D tensors.\<close>

definition stack4 :: "'a list \<Rightarrow> 'a list \<Rightarrow> 'a list \<Rightarrow> 'a list \<Rightarrow> error + 'a list list" where
  "stack4 a b c d =
     (if length b = length a \<and> length c = length a \<and> length d = length a
      then Inr (map (\<lambda>i. [a ! i, b ! i, c ! i, d ! i]) [0..<length a])
      else Inl RuntimeError)"

text \<open>\<^verbatim>\<open>torch.cat(ts)\<close> along dimension 0: an empty list of tensors raises.\<close>

definition cat :: "'a list list \<Rightarrow> error + 'a list" where
  "cat ts = (if ts = [] then Inl RuntimeError else Inr (concat ts))"

text \<open>\<^verbatim>\<open>scores.max(dim=1)\<close> and \<^verbatim>\<open>max_scores.topk(k)\<close>: the indices of the \<open>k\<close>
  largest values, largest first. Torch leaves the order of equal values open; the model
  keeps the lower index first.\<close>

definition row_max :: "real list \<Rightarrow> real" where
  "row_max r = fold max (tl r) (hd r)"

definition topk_inds :: "nat \<Rightarrow> real list \<Rightarrow> nat list" where
  "topk_inds k ms = take k (sort_key (\<lambda>i. - (ms ! i)) [0..<length ms])"

section \<open>The head and its configuration\<close>

record head =
  num_classes :: int
  strides :: "real list"
  base_edge_list :: "real list"
  scale_ranges :: "(real \<times> real) list"
  sigma :: real

definition cls_out_channels :: "head \<Rightarrow> int" where
  "cls_out_channels h = num_classes h - 1"

record 'n test_cfg =
  cfg_nms_pre :: "int option"
  cfg_score_thr :: real
  cfg_k :: real
  cfg_agg_thr :: real
  cfg_nms :: 'n
  cfg_max_per_img :: int

text \<open>\<^verbatim>\<open>scale_factor\<close> of the image meta data is a number or one number per box
  coordinate.\<close>

datatype scale_factor = Scalar real | PerCoord real real real real

section \<open>\<^verbatim>\<open>get_points\<close>\<close>

text \<open>Cell centres in the level's own units: index plus one half. With \<open>flatten\<close> the
  result per level is the pair \<open>(y.flatten(), x.flatten())\<close>, otherwise the two grids.\<close>

definition get_points_flat :: "(nat \<times> nat) list \<Rightarrow> (real list \<times> real list) list" where
  "get_points_flat featmap_sizes =
     map (\<lambda>(H, W). (map (\<lambda>(r, c). real r + 1 / 2) (cells H W),
                     map (\<lambda>(r, c). real c + 1 / 2) (cells H W))) featmap_sizes"

definition get_points :: "(nat \<times> nat) list \<Rightarrow> ((nat \<Rightarrow> nat \<Rightarrow> real) \<times> (nat \<Rightarrow> nat \<Rightarrow> real)) list" where
  "get_points featmap_sizes =
     map (\<lambda>(H, W). (\<lambda>r c. real r + 1 / 2, \<lambda>r c. real c + 1 / 2)) featmap_sizes"

section \<open>The decoder: \<^verbatim>\<open>get_bboxes_single_aug\<close> and \<^verbatim>\<open>get_bboxes_single\<close>\<close>

text \<open>The two side expressions before the clamp, lines 419-422 and 466-469.\<close>

definition side_lo :: "real \<Rightarrow> real \<Rightarrow> real \<Rightarrow> real \<Rightarrow> real" where
  "side_lo stride base_len p e = stride * p - base_len * e"

definition side_hi :: "real \<Rightarrow> real \<Rightarrow> real \<Rightarrow> real \<Rightarrow> real" where
  "side_hi stride base_len p e = stride * p + base_len * e"

definition clamp_img :: "int \<Rightarrow> real list \<Rightarrow> real list" where
  "clamp_img n vs = map (clamp 0 (real_of_int (n - 1))) vs"

definition column :: "nat \<Rightarrow> 'a list list \<Rightarrow> 'a list" where
  "column j rs = map (\<lambda>r. r ! j) rs"

text \<open>\<^verbatim>\<open>det_bboxes /= det_bboxes.new_tensor(scale_factor)\<close>.\<close>

fun rescale_boxes :: "scale_factor \<Rightarrow> real list list \<Rightarrow> real list list" where
  "rescale_boxes (Scalar s) bs = map (map (\<lambda>v. v / s)) bs"
| "rescale_boxes (PerCoord s0 s1 s2 s3) bs = map (\<lambda>b. map2 (\<lambda>v s. v / s) b [s0, s1, s2, s3]) bs"

type_synonym level_in = "tensor3 \<times> tensor3 \<times> (nat \<times> nat) \<times> real \<times> real \<times> (real list \<times> real list)"

text \<open>The zip of the loop header, which stops at the shortest of its six lists.\<close>

definition zip_levels ::
  "head \<Rightarrow> tensor3 list \<Rightarrow> tensor3 list \<Rightarrow> (nat \<times> nat) list \<Rightarrow> (real list \<times> real list) list
     \<Rightarrow> level_in list" where
  "zip_levels h cls_scores bbox_preds featmap_sizes point_list =
     zip cls_scores (zip bbox_preds (zip featmap_sizes
       (zip (strides h) (zip (base_edge_list h) point_list))))"

text \<open>\<^verbatim>\<open>cls_score.permute(1, 2, 0).reshape(-1, self.cls_out_channels).sigmoid()\<close> and
  \<^verbatim>\<open>bbox_pred.permute(1, 2, 0).reshape(-1, 4).exp()\<close>.\<close>

definition level_scores :: "head \<Rightarrow> tensor3 \<Rightarrow> error + real list list" where
  "level_scores h cls_score =
     bindE (reshape_rows (cls_out_channels h) (permute_120 cls_score))
       (\<lambda>rows. Inr (map (map sigmoid) rows))"

definition level_bbox_pred :: "tensor3 \<Rightarrow> error + real list list" where
  "level_bbox_pred bbox_pred =
     bindE (reshape_rows 4 (permute_120 bbox_pred)) (\<lambda>rows. Inr (map (map exp) rows))"

text \<open>The pre-filter on \<^verbatim>\<open>cfg.get('nms_pre', -1)\<close>: keep the \<open>nms_pre\<close> cells of the
  highest maximal class score.\<close>

definition nms_pre_filter ::
  "'n test_cfg \<Rightarrow> real list list \<Rightarrow> real list list \<Rightarrow> real list \<Rightarrow> real list
     \<Rightarrow> error + (real list list \<times> real list list \<times> real list \<times> real list)" where
  "nms_pre_filter cfg bbox_pred scores y x =
     (let nms_pre = (case cfg_nms_pre cfg of None \<Rightarrow> - 1 | Some n \<Rightarrow> n)
      in if nms_pre > 0 \<and> int (length scores) > nms_pre
         then (let max_scores = map row_max scores;
                   topk = topk_inds (nat nms_pre) max_scores
               in bindE (index_select bbox_pred topk) (\<lambda>bbox_pred'.
                  bindE (index_select scores topk) (\<lambda>scores'.
                  bindE (index_select y topk) (\<lambda>y'.
                  bindE (index_select x topk) (\<lambda>x'.
                  Inr (bbox_pred', scores', y', x'))))))
         else Inr (bbox_pred, scores, y, x))"

text \<open>The four clamped coordinates and their stack.\<close>

definition decode_boxes ::
  "real \<Rightarrow> real \<Rightarrow> int \<times> int \<Rightarrow> real list list \<Rightarrow> real list \<Rightarrow> real list
     \<Rightarrow> error + real list list" where
  "decode_boxes stride base_len img_shape bbox_pred y x =
     bindE (bcast2 (side_lo stride base_len) x (column 0 bbox_pred)) (\<lambda>x1.
     bindE (bcast2 (side_lo stride base_len) y (column 1 bbox_pred)) (\<lambda>y1.
     bindE (bcast2 (side_hi stride base_len) x (column 2 bbox_pred)) (\<lambda>x2.
     bindE (bcast2 (side_hi stride base_len) y (column 3 bbox_pred)) (\<lambda>y2.
     stack4 (clamp_img (snd img_shape) x1) (clamp_img (fst img_shape) y1)
            (clamp_img (snd img_shape) x2) (clamp_img (fst img_shape) y2)))))"

text \<open>The loop of \<^verbatim>\<open>get_bboxes_single_aug\<close>, lines 404-425: one iteration appends the
  level's boxes and scores to the two result lists.\<close>

fun get_bboxes_single_aug_loop ::
  "head \<Rightarrow> 'n test_cfg \<Rightarrow> int \<times> int \<Rightarrow> level_in list
     \<Rightarrow> real list list list \<times> real list list list
     \<Rightarrow> error + (real list list list \<times> real list list list)" where
  "get_bboxes_single_aug_loop h cfg img_shape [] (det_bboxes, det_scores) =
     Inr (det_bboxes, det_scores)"
| "get_bboxes_single_aug_loop h cfg img_shape
       ((cls_score, bbox_pred, featmap_size, stride, base_len, (y, x)) # rest)
       (det_bboxes, det_scores) =
     (if (rows3 cls_score, cols3 cls_score) \<noteq> (rows3 bbox_pred, cols3 bbox_pred)
      then Inl AssertionError
      else
        bindE (level_scores h cls_score) (\<lambda>scores.
        bindE (level_bbox_pred bbox_pred) (\<lambda>bbox_pred1.
        bindE (nms_pre_filter cfg bbox_pred1 scores y x) (\<lambda>(bbox_pred2, scores2, y2, x2).
        bindE (decode_boxes stride base_len img_shape bbox_pred2 y2 x2) (\<lambda>bboxes.
        get_bboxes_single_aug_loop h cfg img_shape rest
          (det_bboxes @ [bboxes], det_scores @ [scores2]))))))"

definition get_bboxes_single_aug ::
  "head \<Rightarrow> tensor3 list \<Rightarrow> tensor3 list \<Rightarrow> (nat \<times> nat) list \<Rightarrow> (real list \<times> real list) list
     \<Rightarrow> int \<times> int \<Rightarrow> scale_factor \<Rightarrow> 'n test_cfg \<Rightarrow> bool
     \<Rightarrow> error + (real list list \<times> real list list)" where
  "get_bboxes_single_aug h cls_scores bbox_preds featmap_sizes point_list img_shape
       scale_factor cfg rescale =
     (if \<not> (length cls_scores = length bbox_preds \<and> length bbox_preds = length point_list)
      then Inl AssertionError
      else
        bindE (get_bboxes_single_aug_loop h cfg img_shape
                 (zip_levels h cls_scores bbox_preds featmap_sizes point_list) ([], []))
          (\<lambda>(det_bboxes, det_scores).
        bindE (cat det_bboxes) (\<lambda>det_bboxes1.
        let det_bboxes2 = (if rescale then rescale_boxes scale_factor det_bboxes1 else det_bboxes1)
        in
        bindE (cat det_scores) (\<lambda>det_scores1.
        let padding = replicate (length det_scores1) [0]
        in Inr (det_bboxes2, map2 (\<lambda>p r. p @ r) padding det_scores1)))))"

text \<open>\<^verbatim>\<open>get_bboxes_single\<close>, lines 439-497: its own copy of the loop, the same merge,
  then the external \<^verbatim>\<open>multiclass_nms\<close>, which is a parameter here. The two calls pass
  the configured scalars in different orders.\<close>

fun get_bboxes_single_loop ::
  "head \<Rightarrow> 'n test_cfg \<Rightarrow> int \<times> int \<Rightarrow> level_in list
     \<Rightarrow> real list list list \<times> real list list list
     \<Rightarrow> error + (real list list list \<times> real list list list)" where
  "get_bboxes_single_loop h cfg img_shape [] (det_bboxes, det_scores) =
     Inr (det_bboxes, det_scores)"
| "get_bboxes_single_loop h cfg img_shape
       ((cls_score, bbox_pred, featmap_size, stride, base_len, (y, x)) # rest)
       (det_bboxes, det_scores) =
     (if (rows3 cls_score, cols3 cls_score) \<noteq> (rows3 bbox_pred, cols3 bbox_pred)
      then Inl AssertionError
      else
        bindE (level_scores h cls_score) (\<lambda>scores.
        bindE (level_bbox_pred bbox_pred) (\<lambda>bbox_pred1.
        bindE (nms_pre_filter cfg bbox_pred1 scores y x) (\<lambda>(bbox_pred2, scores2, y2, x2).
        bindE (decode_boxes stride base_len img_shape bbox_pred2 y2 x2) (\<lambda>bboxes.
        get_bboxes_single_loop h cfg img_shape rest
          (det_bboxes @ [bboxes], det_scores @ [scores2]))))))"

definition get_bboxes_single_pre_nms ::
  "head \<Rightarrow> tensor3 list \<Rightarrow> tensor3 list \<Rightarrow> (nat \<times> nat) list \<Rightarrow> (real list \<times> real list) list
     \<Rightarrow> int \<times> int \<Rightarrow> scale_factor \<Rightarrow> 'n test_cfg \<Rightarrow> bool
     \<Rightarrow> error + (real list list \<times> real list list)" where
  "get_bboxes_single_pre_nms h cls_scores bbox_preds featmap_sizes point_list img_shape
       scale_factor cfg rescale =
     (if \<not> (length cls_scores = length bbox_preds \<and> length bbox_preds = length point_list)
      then Inl AssertionError
      else
        bindE (get_bboxes_single_loop h cfg img_shape
                 (zip_levels h cls_scores bbox_preds featmap_sizes point_list) ([], []))
          (\<lambda>(det_bboxes, det_scores).
        bindE (cat det_bboxes) (\<lambda>det_bboxes1.
        let det_bboxes2 = (if rescale then rescale_boxes scale_factor det_bboxes1 else det_bboxes1)
        in
        bindE (cat det_scores) (\<lambda>det_scores1.
        let padding = replicate (length det_scores1) [0]
        in Inr (det_bboxes2, map2 (\<lambda>p r. p @ r) padding det_scores1)))))"

definition get_bboxes_single ::
  "(real list list \<Rightarrow> real list list \<Rightarrow> real \<Rightarrow> real \<Rightarrow> real \<Rightarrow> 'n \<Rightarrow> int \<Rightarrow> 'r)
     \<Rightarrow> head \<Rightarrow> tensor3 list \<Rightarrow> tensor3 list \<Rightarrow> (nat \<times> nat) list
     \<Rightarrow> (real list \<times> real list) list \<Rightarrow> int \<times> int \<Rightarrow> scale_factor \<Rightarrow> 'n test_cfg \<Rightarrow> bool \<Rightarrow> bool
     \<Rightarrow> error + 'r" where
  "get_bboxes_single multiclass_nms h cls_scores bbox_preds featmap_sizes point_list img_shape
       scale_factor cfg rescale debug =
     bindE (get_bboxes_single_pre_nms h cls_scores bbox_preds featmap_sizes point_list img_shape
              scale_factor cfg rescale)
       (\<lambda>(det_bboxes, det_scores).
          if debug
          then Inr (multiclass_nms det_bboxes det_scores (cfg_k cfg) (cfg_agg_thr cfg)
                      (cfg_score_thr cfg) (cfg_nms cfg) (cfg_max_per_img cfg))
          else Inr (multiclass_nms det_bboxes det_scores (cfg_score_thr cfg) (cfg_k cfg)
                      (cfg_agg_thr cfg) (cfg_nms cfg) (cfg_max_per_img cfg)))"

section \<open>The target builder: \<^verbatim>\<open>ppdet_target_single\<close>\<close>

text \<open>A box is \<open>(x1, y1, x2, y2)\<close>. A grid of a level has its size and one value per
  cell, addressed by row and column; the regression grid holds four values per cell.\<close>

type_synonym bbox = "real \<times> real \<times> real \<times> real"

type_synonym vec4 = "real \<times> real \<times> real \<times> real"

record 'a grid =
  grid_h :: nat
  grid_w :: nat
  grid_at :: "nat \<Rightarrow> nat \<Rightarrow> 'a"

definition map4 :: "(real \<Rightarrow> real) \<Rightarrow> vec4 \<Rightarrow> vec4" where
  "map4 f v = (case v of (a, b, c, d) \<Rightarrow> (f a, f b, f c, f d))"

text \<open>\<^verbatim>\<open>gt_areas\<close>, lines 293-294: the square root of width times height. The root of
  a negative product is NaN in torch; it is \<open>None\<close> here, and it compares false with every
  bound.\<close>

definition gt_area :: "bbox \<Rightarrow> real option" where
  "gt_area b = (case b of (x1, y1, x2, y2) \<Rightarrow>
     if (x2 - x1) * (y2 - y1) < 0 then None else Some (sqrt ((x2 - x1) * (y2 - y1))))"

definition area_value :: "real option \<Rightarrow> real" where
  "area_value a = (case a of None \<Rightarrow> 0 | Some v \<Rightarrow> v)"

definition level_hit :: "real \<Rightarrow> real \<Rightarrow> real option \<Rightarrow> bool" where
  "level_hit lower_bound upper_bound a =
     (case a of None \<Rightarrow> False | Some v \<Rightarrow> v \<ge> lower_bound \<and> v \<le> upper_bound)"

text \<open>Line 303: the indices of the boxes inside the scale range, in increasing order.\<close>

definition hit_indices :: "real \<Rightarrow> real \<Rightarrow> real option list \<Rightarrow> nat list" where
  "hit_indices lower_bound upper_bound gt_areas =
     filter (\<lambda>i. level_hit lower_bound upper_bound (gt_areas ! i)) [0..<length gt_areas]"

text \<open>Lines 310-311: the hit indices sorted by \<open>- area\<close>, largest box first. Torch leaves
  the order of boxes of equal area open; the model keeps them in index order.\<close>

definition sort_hits :: "real option list \<Rightarrow> nat list \<Rightarrow> nat list" where
  "sort_hits gt_areas hits = sort_key (\<lambda>i. - area_value (gt_areas ! i)) hits"

text \<open>
  Lines 312 and 314-323: the box in stride units, its half extents, and the four
  clamped bounds \<open>(pos_left, pos_top, pos_right, pos_down)\<close> of the positive region.
  The boxes are float32 tensors, so every tensor operation rounds to float32;
  \<open>1 - self.sigma\<close> and \<open>1 + self.sigma\<close> are Python floats, computed in double and
  converted to float32 when they meet the tensor. \<open>sg\<close> is the double \<open>self.sigma\<close>, and
  \<open>0.5\<close> is a float32 as it is.
\<close>

definition pos_region :: "real \<Rightarrow> real \<Rightarrow> nat \<times> nat \<Rightarrow> bbox \<Rightarrow> int \<times> int \<times> int \<times> int" where
  "pos_region sg stride featmap_size b =
     (case b of (rx1, ry1, rx2, ry2) \<Rightarrow>
        let gx1 = f32 (rx1 / f32 stride); gy1 = f32 (ry1 / f32 stride);
            gx2 = f32 (rx2 / f32 stride); gy2 = f32 (ry2 / f32 stride);
            half_w = f32 (1 / 2 * f32 (gx2 - gx1));
            half_h = f32 (1 / 2 * f32 (gy2 - gy1));
            lo = f32 (f64 (1 - sg));
            hi = f32 (f64 (1 + sg));
            pos_left = clamp 0 (int (snd featmap_size) - 1)
              (to_long (of_int \<lceil>f32 (f32 (gx1 + f32 (lo * half_w)) - 1 / 2)\<rceil>));
            pos_right = clamp 0 (int (snd featmap_size) - 1)
              (to_long (of_int \<lfloor>f32 (f32 (gx1 + f32 (hi * half_w)) - 1 / 2)\<rfloor>));
            pos_top = clamp 0 (int (fst featmap_size) - 1)
              (to_long (of_int \<lceil>f32 (f32 (gy1 + f32 (lo * half_h)) - 1 / 2)\<rceil>));
            pos_down = clamp 0 (int (fst featmap_size) - 1)
              (to_long (of_int \<lfloor>f32 (f32 (gy1 + f32 (hi * half_h)) - 1 / 2)\<rfloor>))
        in (pos_left, pos_top, pos_right, pos_down))"

text \<open>The cells of the slice \<^verbatim>\<open>[py1:py2 + 1, px1:px2 + 1]\<close>. The four bounds come out of
  a clamp to \<open>[0, size - 1]\<close>, so the slice is the set of cells between them, and it is
  empty when a lower bound exceeds the upper one.\<close>

definition in_slice :: "int \<times> int \<times> int \<times> int \<Rightarrow> nat \<Rightarrow> nat \<Rightarrow> bool" where
  "in_slice reg r c =
     (case reg of (px1, py1, px2, py2) \<Rightarrow>
        py1 \<le> int r \<and> int r \<le> py2 \<and> px1 \<le> int c \<and> int c \<le> px2)"

text \<open>The state of the painting loop: \<open>labels\<close>, \<open>gt_ids\<close> and \<open>bbox_targets\<close>. One
  iteration, lines 327-332, assigns to the cells of the slice.\<close>

type_synonym paint_state = "(nat \<Rightarrow> nat \<Rightarrow> int) \<times> (nat \<Rightarrow> nat \<Rightarrow> int) \<times> (nat \<Rightarrow> nat \<Rightarrow> vec4)"

type_synonym paint_item = "(int \<times> int \<times> int \<times> int) \<times> int \<times> nat \<times> bbox"

definition side_distances ::
  "real \<Rightarrow> real \<Rightarrow> (nat \<Rightarrow> nat \<Rightarrow> real) \<Rightarrow> (nat \<Rightarrow> nat \<Rightarrow> real) \<Rightarrow> bbox \<Rightarrow> nat \<Rightarrow> nat \<Rightarrow> vec4" where
  "side_distances stride base_len y x b r c =
     (case b of (gt_x1, gt_y1, gt_x2, gt_y2) \<Rightarrow>
        ((stride * x r c - gt_x1) / base_len, (stride * y r c - gt_y1) / base_len,
         (gt_x2 - stride * x r c) / base_len, (gt_y2 - stride * y r c) / base_len))"

definition paint_box ::
  "real \<Rightarrow> real \<Rightarrow> (nat \<Rightarrow> nat \<Rightarrow> real) \<Rightarrow> (nat \<Rightarrow> nat \<Rightarrow> real) \<Rightarrow> nat
     \<Rightarrow> paint_state \<Rightarrow> paint_item \<Rightarrow> paint_state" where
  "paint_box stride base_len y x label_size_list_raw st it =
     (case st of (labels, gt_ids, bbox_targets) \<Rightarrow>
      case it of (reg, label, gt_id, b) \<Rightarrow>
        (\<lambda>r c. if in_slice reg r c then label else labels r c,
         \<lambda>r c. if in_slice reg r c then int gt_id + int label_size_list_raw else gt_ids r c,
         \<lambda>r c. if in_slice reg r c then side_distances stride base_len y x b r c
                else bbox_targets r c))"

type_synonym level_cfg =
  "real \<times> (real \<times> real) \<times> real \<times> (nat \<times> nat) \<times> ((nat \<Rightarrow> nat \<Rightarrow> real) \<times> (nat \<Rightarrow> nat \<Rightarrow> real))"

type_synonym level_targets = "int grid \<times> vec4 grid \<times> int grid"

definition mk_grid :: "nat \<times> nat \<Rightarrow> (nat \<Rightarrow> nat \<Rightarrow> 'a) \<Rightarrow> 'a grid" where
  "mk_grid featmap_size f = \<lparr>grid_h = fst featmap_size, grid_w = snd featmap_size, grid_at = f\<rparr>"

text \<open>
  The body of the loop over the levels, lines 300-336. \<^verbatim>\<open>gt_bboxes_raw.new(H, W, 4)\<close>
  allocates without initialising: the tensor holds whatever the memory held, which is
  the parameter \<open>mem\<close> here, and \<open>bbox_targets\<close> is \<open>mem + 1\<close>. The instance offset
  \<open>label_size_list_raw\<close> is the number of boxes of the images before this one.
\<close>

definition target_level ::
  "real \<Rightarrow> nat \<Rightarrow> bbox list \<Rightarrow> int list \<Rightarrow> (nat \<Rightarrow> nat \<Rightarrow> vec4) \<Rightarrow> level_cfg
     \<Rightarrow> error + level_targets" where
  "target_level sg label_size_list_raw gt_bboxes_raw gt_labels_raw mem l =
     (case l of (base_len, (lower_bound, upper_bound), stride, featmap_size, (y, x)) \<Rightarrow>
        let gt_areas = map gt_area gt_bboxes_raw;
            labels = (\<lambda>r c. 0);
            bbox_targets = (\<lambda>r c. map4 (\<lambda>v. v + 1) (mem r c));
            gt_ids = (\<lambda>r c. 0 - 1);
            hits = hit_indices lower_bound upper_bound gt_areas
        in if length hits = 0
           then Inr (mk_grid featmap_size labels,
                     mk_grid featmap_size (\<lambda>r c. map4 ln (bbox_targets r c)),
                     mk_grid featmap_size gt_ids)
           else
             let hits1 = sort_hits gt_areas hits;
                 boxes = map (\<lambda>i. gt_bboxes_raw ! i) hits1
             in bindE (index_select gt_labels_raw hits1) (\<lambda>gt_labels.
                let regions = map (pos_region sg stride featmap_size) boxes;
                    st = foldl (paint_box stride base_len y x label_size_list_raw)
                           (labels, gt_ids, bbox_targets)
                           (zip regions (zip gt_labels (zip hits1 boxes)))
                in case st of (labels1, gt_ids1, bbox_targets1) \<Rightarrow>
                   Inr (mk_grid featmap_size labels1,
                        mk_grid featmap_size
                          (\<lambda>r c. map4 ln (map4 (clamp (1 / 16) 16) (bbox_targets1 r c))),
                        mk_grid featmap_size gt_ids1)))"

text \<open>The loop over the zipped levels; \<open>n\<close> counts the levels, for the memory that
  the \<open>n\<close>-th allocation finds.\<close>

fun ppdet_target_loop ::
  "real \<Rightarrow> nat \<Rightarrow> bbox list \<Rightarrow> int list \<Rightarrow> (nat \<Rightarrow> nat \<Rightarrow> nat \<Rightarrow> vec4) \<Rightarrow> nat \<Rightarrow> level_cfg list
     \<Rightarrow> int grid list \<times> vec4 grid list \<times> int grid list
     \<Rightarrow> error + (int grid list \<times> vec4 grid list \<times> int grid list)" where
  "ppdet_target_loop sg off bs ls mem n [] (label_list, bbox_target_list, ids_list) =
     Inr (label_list, bbox_target_list, ids_list)"
| "ppdet_target_loop sg off bs ls mem n (l # rest) (label_list, bbox_target_list, ids_list) =
     bindE (target_level sg off bs ls (mem n) l) (\<lambda>(labels, bbox_targets, gt_ids).
       ppdet_target_loop sg off bs ls mem (Suc n) rest
         (label_list @ [labels], bbox_target_list @ [bbox_targets], ids_list @ [gt_ids]))"

definition zip_target_levels ::
  "head \<Rightarrow> (nat \<times> nat) list \<Rightarrow> ((nat \<Rightarrow> nat \<Rightarrow> real) \<times> (nat \<Rightarrow> nat \<Rightarrow> real)) list
     \<Rightarrow> level_cfg list" where
  "zip_target_levels h featmap_size_list point_list =
     zip (base_edge_list h) (zip (scale_ranges h) (zip (strides h)
       (zip featmap_size_list point_list)))"

definition ppdet_target_single ::
  "head \<Rightarrow> (nat \<Rightarrow> nat \<Rightarrow> nat \<Rightarrow> vec4) \<Rightarrow> bbox list \<Rightarrow> int list \<Rightarrow> nat
     \<Rightarrow> (nat \<times> nat) list \<Rightarrow> ((nat \<Rightarrow> nat \<Rightarrow> real) \<times> (nat \<Rightarrow> nat \<Rightarrow> real)) list
     \<Rightarrow> error + (int grid list \<times> vec4 grid list \<times> int grid list)" where
  "ppdet_target_single h mem gt_bboxes_raw gt_labels_raw label_size_list_raw
       featmap_size_list point_list =
     ppdet_target_loop (sigma h) label_size_list_raw gt_bboxes_raw gt_labels_raw mem 0
       (zip_target_levels h featmap_size_list point_list) ([], [], [])"

text \<open>The three values of one cell of a painting state, and the three values that an
  item of the painting loop assigns to a cell of its slice.\<close>

definition cell_of :: "paint_state \<Rightarrow> nat \<Rightarrow> nat \<Rightarrow> int \<times> int \<times> vec4" where
  "cell_of st r c = (case st of (labels, gt_ids, bbox_targets) \<Rightarrow>
     (labels r c, gt_ids r c, bbox_targets r c))"

definition item_value ::
  "real \<Rightarrow> real \<Rightarrow> (nat \<Rightarrow> nat \<Rightarrow> real) \<Rightarrow> (nat \<Rightarrow> nat \<Rightarrow> real) \<Rightarrow> nat \<Rightarrow> paint_item
     \<Rightarrow> nat \<Rightarrow> nat \<Rightarrow> int \<times> int \<times> vec4" where
  "item_value stride base_len y x label_size_list_raw it r c =
     (case it of (reg, label, gt_id, b) \<Rightarrow>
        (label, int gt_id + int label_size_list_raw, side_distances stride base_len y x b r c))"


text \<open>Reading one cell of one level out of the result of \<^verbatim>\<open>ppdet_target_single\<close>.\<close>

definition label_at ::
  "error + (int grid list \<times> vec4 grid list \<times> int grid list) \<Rightarrow> nat \<Rightarrow> nat \<Rightarrow> nat \<Rightarrow> int option" where
  "label_at res lvl r c =
     (case res of Inl e \<Rightarrow> None
      | Inr (label_list, bbox_target_list, ids_list) \<Rightarrow>
          if lvl < length label_list then Some (grid_at (label_list ! lvl) r c) else None)"

definition id_at ::
  "error + (int grid list \<times> vec4 grid list \<times> int grid list) \<Rightarrow> nat \<Rightarrow> nat \<Rightarrow> nat \<Rightarrow> int option" where
  "id_at res lvl r c =
     (case res of Inl e \<Rightarrow> None
      | Inr (label_list, bbox_target_list, ids_list) \<Rightarrow>
          if lvl < length ids_list then Some (grid_at (ids_list ! lvl) r c) else None)"

definition target_at ::
  "error + (int grid list \<times> vec4 grid list \<times> int grid list) \<Rightarrow> nat \<Rightarrow> nat \<Rightarrow> nat \<Rightarrow> vec4 option" where
  "target_at res lvl r c =
     (case res of Inl e \<Rightarrow> None
      | Inr (label_list, bbox_target_list, ids_list) \<Rightarrow>
          if lvl < length bbox_target_list then Some (grid_at (bbox_target_list ! lvl) r c)
          else None)"

section \<open>The loss composer: \<^verbatim>\<open>loss\<close>\<close>

text \<open>The running offsets of lines 210-214: the number of labels of the images before
  each image.\<close>

fun label_size_loop :: "nat \<Rightarrow> int list list \<Rightarrow> nat list" where
  "label_size_loop temp [] = []"
| "label_size_loop temp (x # xs) = temp # label_size_loop (length x + temp) xs"

text \<open>\<^verbatim>\<open>multi_apply\<close> of \<^verbatim>\<open>ppdet_target_single\<close>: one call per image of the zipped
  arguments, then the transposition of the results into three lists. With no image the
  unpacking of the three lists raises.\<close>

fun target_images ::
  "head \<Rightarrow> (nat \<Rightarrow> nat \<Rightarrow> nat \<Rightarrow> nat \<Rightarrow> vec4) \<Rightarrow> nat \<Rightarrow> (bbox list \<times> int list \<times> nat) list
     \<Rightarrow> (nat \<times> nat) list \<Rightarrow> ((nat \<Rightarrow> nat \<Rightarrow> real) \<times> (nat \<Rightarrow> nat \<Rightarrow> real)) list
     \<Rightarrow> error + (int grid list \<times> vec4 grid list \<times> int grid list) list" where
  "target_images h mem n [] featmap_sizes points = Inr []"
| "target_images h mem n ((gt_bboxes, gt_labels, label_size) # rest) featmap_sizes points =
     bindE (ppdet_target_single h (mem n) gt_bboxes gt_labels label_size featmap_sizes points)
       (\<lambda>res. bindE (target_images h mem (Suc n) rest featmap_sizes points)
          (\<lambda>ress. Inr (res # ress)))"

definition multi_apply_targets ::
  "head \<Rightarrow> (nat \<Rightarrow> nat \<Rightarrow> nat \<Rightarrow> nat \<Rightarrow> vec4) \<Rightarrow> bbox list list \<Rightarrow> int list list \<Rightarrow> nat list
     \<Rightarrow> (nat \<times> nat) list \<Rightarrow> ((nat \<Rightarrow> nat \<Rightarrow> real) \<times> (nat \<Rightarrow> nat \<Rightarrow> real)) list
     \<Rightarrow> error + (int grid list list \<times> vec4 grid list list \<times> int grid list list)" where
  "multi_apply_targets h mem gt_bbox_list gt_label_list label_size_list featmap_sizes points =
     bindE (target_images h mem 0 (zip gt_bbox_list (zip gt_label_list label_size_list))
              featmap_sizes points)
       (\<lambda>results. if results = [] then Inl ValueError
                   else Inr (map fst results, map (\<lambda>res. fst (snd res)) results,
                             map (\<lambda>res. snd (snd res)) results))"

text \<open>\<^verbatim>\<open>zip(*xss)\<close>: the transposition, as long as the shortest list.\<close>

definition zip_star :: "'a list list \<Rightarrow> 'a list list" where
  "zip_star xss =
     (if xss = [] then []
      else map (\<lambda>j. map (\<lambda>xs. xs ! j) xss) [0..<Min (set (map length xss))])"

fun sequenceE :: "(error + 'a) list \<Rightarrow> error + 'a list" where
  "sequenceE [] = Inr []"
| "sequenceE (m # ms) = bindE m (\<lambda>v. bindE (sequenceE ms) (\<lambda>vs. Inr (v # vs)))"

definition flatten_grid :: "'a grid \<Rightarrow> 'a list" where
  "flatten_grid g = map (\<lambda>(r, c). grid_at g r c) (cells (grid_h g) (grid_w g))"

definition vec4_row :: "vec4 \<Rightarrow> real list" where
  "vec4_row v = (case v of (a, b, c, d) \<Rightarrow> [a, b, c, d])"

text \<open>Lines 224-242: per level the concatenation over the images, then the concatenation
  over the levels.\<close>

definition flatten_levels :: "('g \<Rightarrow> 'b list) \<Rightarrow> 'g list list \<Rightarrow> error + 'b list" where
  "flatten_levels f per_image =
     bindE (sequenceE (map (\<lambda>level. cat (map f level)) (zip_star per_image))) cat"

text \<open>Lines 244-253: \<^verbatim>\<open>permute(0, 2, 3, 1).reshape(-1, k)\<close> per level, concatenated.\<close>

definition flatten_preds :: "int \<Rightarrow> tensor4 list \<Rightarrow> error + real list list" where
  "flatten_preds k ts =
     bindE (sequenceE (map (\<lambda>t. reshape_rows k (permute_0231 t)) ts)) cat"

record flat_batch =
  fl_labels :: "int list"
  fl_bbox_targets :: "real list list"
  fl_ids :: "int list"
  fl_cls_scores :: "real list list"
  fl_bbox_preds :: "real list list"
  fl_all_gt_labels :: "int list"
  fl_num_imgs :: nat

text \<open>Lines 202-253 of \<^verbatim>\<open>loss\<close>: the targets of all images and the flattened
  arrays.\<close>

definition loss_flatten ::
  "head \<Rightarrow> (nat \<Rightarrow> nat \<Rightarrow> nat \<Rightarrow> nat \<Rightarrow> vec4) \<Rightarrow> tensor4 list \<Rightarrow> tensor4 list
     \<Rightarrow> bbox list list \<Rightarrow> int list list \<Rightarrow> error + flat_batch" where
  "loss_flatten h mem cls_scores bbox_preds gt_bbox_list gt_label_list =
     (if length cls_scores \<noteq> length bbox_preds then Inl AssertionError
      else if bbox_preds = [] then Inl IndexError
      else
        let featmap_sizes = map (\<lambda>featmap. (rows4 featmap, cols4 featmap)) cls_scores;
            points = get_points featmap_sizes
        in
        bindE (cat gt_label_list) (\<lambda>all_gt_label_list.
        let label_size_list = label_size_loop 0 gt_label_list
        in
        bindE (multi_apply_targets h mem gt_bbox_list gt_label_list label_size_list
                 featmap_sizes points) (\<lambda>(label_list, bbox_target_list, gt_ids_list).
        bindE (flatten_levels flatten_grid label_list) (\<lambda>flatten_labels.
        bindE (flatten_levels (\<lambda>g. map vec4_row (flatten_grid g)) bbox_target_list)
          (\<lambda>flatten_bbox_targets.
        bindE (flatten_levels flatten_grid gt_ids_list) (\<lambda>flatten_ids.
        let num_imgs = batch4 (hd cls_scores)
        in
        bindE (flatten_preds (cls_out_channels h) cls_scores) (\<lambda>flatten_cls_scores.
        bindE (flatten_preds 4 bbox_preds) (\<lambda>flatten_bbox_preds.
        Inr \<lparr>fl_labels = flatten_labels, fl_bbox_targets = flatten_bbox_targets,
             fl_ids = flatten_ids, fl_cls_scores = flatten_cls_scores,
             fl_bbox_preds = flatten_bbox_preds, fl_all_gt_labels = all_gt_label_list,
             fl_num_imgs = num_imgs\<rparr>))))))))"

text \<open>\<^verbatim>\<open>mask.nonzero()\<close> as a list of indices, and the mean over dimension 0 of a
  non-empty stack of rows.\<close>

definition nonzero :: "bool list \<Rightarrow> nat list" where
  "nonzero flags = filter (\<lambda>i. flags ! i) [0..<length flags]"

definition mean_dim0 :: "real list list \<Rightarrow> real list" where
  "mean_dim0 rows =
     map (\<lambda>j. sum_list (map (\<lambda>row. row ! j) rows) / real (length rows)) [0..<length (hd rows)]"

text \<open>The loop of lines 263-270 over \<^verbatim>\<open>enumerate(all_gt_label_list)\<close>: an instance with
  cells prepends its label and the mean of the scores of its cells.\<close>

fun agg_loop ::
  "int list \<Rightarrow> int list \<Rightarrow> real list list \<Rightarrow> (nat \<times> int) list \<Rightarrow> int list \<times> real list list \<times> nat
     \<Rightarrow> error + (int list \<times> real list list \<times> nat)" where
  "agg_loop flatten_labels flatten_ids flatten_cls_scores [] st = Inr st"
| "agg_loop flatten_labels flatten_ids flatten_cls_scores ((i, class_id) # rest)
       (agg_labels, agg_cls_scores, num_agg_pos) =
     (let aggregation_indices = nonzero (map (\<lambda>v. v = int i) flatten_ids)
      in bindE (index_select flatten_labels aggregation_indices) (\<lambda>sel.
         if length sel \<noteq> 0
         then bindE (index_select flatten_cls_scores aggregation_indices) (\<lambda>rows.
                agg_loop flatten_labels flatten_ids flatten_cls_scores rest
                  ([class_id] @ agg_labels, [mean_dim0 rows] @ agg_cls_scores, num_agg_pos + 1))
         else agg_loop flatten_labels flatten_ids flatten_cls_scores rest
                (agg_labels, agg_cls_scores, num_agg_pos)))"

text \<open>Lines 258-272: the samples, the labels and the \<open>avg_factor\<close> that go to the
  classification loss.\<close>

definition loss_cls_samples :: "flat_batch \<Rightarrow> error + (real list list \<times> int list \<times> nat)" where
  "loss_cls_samples fb =
     (let neg_inds = nonzero (map (\<lambda>l. l \<le> 0) (fl_labels fb))
      in bindE (index_select (fl_labels fb) neg_inds) (\<lambda>agg_labels.
         bindE (index_select (fl_cls_scores fb) neg_inds) (\<lambda>agg_cls_scores.
         bindE (agg_loop (fl_labels fb) (fl_ids fb) (fl_cls_scores fb)
                  (zip [0..<length (fl_all_gt_labels fb)] (fl_all_gt_labels fb))
                  (agg_labels, agg_cls_scores, 0))
           (\<lambda>(agg_labels1, agg_cls_scores1, num_agg_pos).
              Inr (agg_cls_scores1, agg_labels1, num_agg_pos + fl_num_imgs fb)))))"

text \<open>Lines 254-255 and 274-281: predictions, targets, weights and \<open>avg_factor\<close> of the
  regression loss, or nothing when no cell is positive.\<close>

definition loss_bbox_samples ::
  "flat_batch \<Rightarrow> error + (real list list \<times> real list list \<times> real list list \<times> nat) option" where
  "loss_bbox_samples fb =
     (let pos_inds = nonzero (map (\<lambda>l. l > 0) (fl_labels fb));
          num_pos = length pos_inds
      in if num_pos > 0
         then bindE (index_select (fl_bbox_preds fb) pos_inds) (\<lambda>pos_bbox_preds.
              bindE (index_select (fl_bbox_targets fb) pos_inds) (\<lambda>pos_bbox_targets.
              let pos_weights = map (map (\<lambda>_. 0 + 1)) pos_bbox_targets
              in Inr (Some (pos_bbox_preds, pos_bbox_targets, pos_weights, num_pos))))
         else Inr None)"

text \<open>A loss value is a tensor: its shape and its elements. The two loss functions are
  built from the configuration and are parameters here.\<close>

record loss_tensor =
  t_shape :: "nat list"
  t_data :: "real list"

definition loss ::
  "(real list list \<Rightarrow> int list \<Rightarrow> nat \<Rightarrow> loss_tensor)
     \<Rightarrow> (real list list \<Rightarrow> real list list \<Rightarrow> real list list \<Rightarrow> nat \<Rightarrow> loss_tensor)
     \<Rightarrow> head \<Rightarrow> (nat \<Rightarrow> nat \<Rightarrow> nat \<Rightarrow> nat \<Rightarrow> vec4) \<Rightarrow> tensor4 list \<Rightarrow> tensor4 list
     \<Rightarrow> bbox list list \<Rightarrow> int list list \<Rightarrow> error + (loss_tensor \<times> loss_tensor)" where
  "loss loss_cls_fn loss_bbox_fn h mem cls_scores bbox_preds gt_bbox_list gt_label_list =
     bindE (loss_flatten h mem cls_scores bbox_preds gt_bbox_list gt_label_list) (\<lambda>fb.
     bindE (loss_cls_samples fb) (\<lambda>(agg_cls_scores, agg_labels, avg_factor).
     let loss_cls = loss_cls_fn agg_cls_scores agg_labels avg_factor
     in bindE (loss_bbox_samples fb) (\<lambda>reg.
        case reg of
          Some (pos_bbox_preds, pos_bbox_targets, pos_weights, num_pos) \<Rightarrow>
            Inr (loss_cls, loss_bbox_fn pos_bbox_preds pos_bbox_targets pos_weights num_pos)
        | None \<Rightarrow> Inr (loss_cls, \<lparr>t_shape = [1], t_data = [0]\<rparr>))))"

text \<open>The vocabulary of the claims about the loss, over the flattened arrays: a cell is
  an index of \<open>fl_labels\<close>; the negative cells; the cells of an instance, those whose
  instance id is its global id; the instances with at least one cell.\<close>

definition negative_cells :: "flat_batch \<Rightarrow> nat list" where
  "negative_cells fb = filter (\<lambda>i. fl_labels fb ! i \<le> 0) [0..<length (fl_labels fb)]"

definition positive_cells :: "flat_batch \<Rightarrow> nat list" where
  "positive_cells fb = filter (\<lambda>i. fl_labels fb ! i > 0) [0..<length (fl_labels fb)]"

definition instance_cells :: "flat_batch \<Rightarrow> nat \<Rightarrow> nat list" where
  "instance_cells fb g = filter (\<lambda>j. fl_ids fb ! j = int g) [0..<length (fl_ids fb)]"

definition hit_instances :: "flat_batch \<Rightarrow> nat list" where
  "hit_instances fb =
     filter (\<lambda>g. instance_cells fb g \<noteq> []) [0..<length (fl_all_gt_labels fb)]"

text \<open>What the label and the instance id of one cell can be, given the set of the
  ground-truth labels: background without instance, or a ground-truth label with an
  instance.\<close>

definition cell_rel :: "int set \<Rightarrow> int \<Rightarrow> int \<Rightarrow> bool" where
  "cell_rel A l i = ((l = 0 \<and> i = - 1) \<or> (l \<in> A \<and> 0 \<le> i))"

text \<open>The result of one iteration of either loop, as a function of the level.\<close>

definition level_result ::
  "head \<Rightarrow> 'n test_cfg \<Rightarrow> int \<times> int \<Rightarrow> level_in \<Rightarrow> error + (real list list \<times> real list list)" where
  "level_result h cfg img_shape l =
     (case l of (cls_score, bbox_pred, featmap_size, stride, base_len, (y, x)) \<Rightarrow>
        if (rows3 cls_score, cols3 cls_score) \<noteq> (rows3 bbox_pred, cols3 bbox_pred)
        then Inl AssertionError
        else
          bindE (level_scores h cls_score) (\<lambda>scores.
          bindE (level_bbox_pred bbox_pred) (\<lambda>bbox_pred1.
          bindE (nms_pre_filter cfg bbox_pred1 scores y x) (\<lambda>(bbox_pred2, scores2, y2, x2).
          bindE (decode_boxes stride base_len img_shape bbox_pred2 y2 x2) (\<lambda>bboxes.
          Inr (bboxes, scores2))))))"

text \<open>A level whose tensors and points fit together: as many score channels as the
  head has class outputs, four regression channels, one point per cell.\<close>

definition level_fits :: "head \<Rightarrow> level_in \<Rightarrow> bool" where
  "level_fits h l =
     (case l of (cls_score, bbox_pred, featmap_size, stride, base_len, (y, x)) \<Rightarrow>
        int (chan3 cls_score) = cls_out_channels h \<and> chan3 bbox_pred = 4
        \<and> length y = rows3 cls_score * cols3 cls_score
        \<and> length x = rows3 cls_score * cols3 cls_score)"

text \<open>A box inside the image, with its corners in order.\<close>

definition box_in_image :: "int \<times> int \<Rightarrow> real list \<Rightarrow> bool" where
  "box_in_image img_shape b =
     (length b = 4
      \<and> 0 \<le> b ! 0 \<and> b ! 0 \<le> b ! 2 \<and> b ! 2 \<le> real_of_int (snd img_shape) - 1
      \<and> 0 \<le> b ! 1 \<and> b ! 1 \<le> b ! 3 \<and> b ! 3 \<le> real_of_int (fst img_shape) - 1)"

text \<open>The four side expressions of one cell \<open>p = (y, x)\<close> with exponentiated
  prediction \<open>e\<close>, as they stand inside the four clamps.\<close>

definition box_before_clamp :: "real \<Rightarrow> real \<Rightarrow> real \<times> real \<Rightarrow> real list \<Rightarrow> real list" where
  "box_before_clamp stride base_len p e =
     [side_lo stride base_len (snd p) (e ! 0), side_lo stride base_len (fst p) (e ! 1),
      side_hi stride base_len (snd p) (e ! 2), side_hi stride base_len (fst p) (e ! 3)]"

section \<open>Concrete inputs\<close>

text \<open>The Python float \<open>0.4\<close>, the default of \<open>sigma\<close>.\<close>

definition sigma_0_4 :: real where
  "sigma_0_4 = f64 (2 / 5)"

text \<open>A head with one foreground class and one level of stride 8, a test configuration
  without pre-filter.\<close>

definition example_head :: head where
  "example_head = \<lparr>num_classes = 2, strides = [8], base_edge_list = [16],
     scale_ranges = [(8, 32)], sigma = sigma_0_4\<rparr>"

definition example_cfg :: "unit test_cfg" where
  "example_cfg = \<lparr>cfg_nms_pre = None, cfg_score_thr = 1 / 20, cfg_k = 1, cfg_agg_thr = 1 / 2,
     cfg_nms = (), cfg_max_per_img = 100\<rparr>"

text \<open>One cell, one class channel and four regression channels, all raw outputs 0.\<close>

definition example_cls :: tensor3 where
  "example_cls = \<lparr>chan3 = 1, rows3 = 1, cols3 = 1, elems3 = (\<lambda>_ _ _. 0)\<rparr>"

definition example_reg :: tensor3 where
  "example_reg = \<lparr>chan3 = 4, rows3 = 1, cols3 = 1, elems3 = (\<lambda>_ _ _. 0)\<rparr>"

text \<open>Three boxes around the same region, of area scores 32, 24 and 16, and memory
  that holds 5 everywhere.\<close>

definition box_a :: bbox where "box_a = (0, 0, 32, 32)"

definition box_b :: bbox where "box_b = (4, 4, 28, 28)"

definition box_c :: bbox where "box_c = (4, 4, 20, 20)"

definition mem5 :: "nat \<Rightarrow> nat \<Rightarrow> nat \<Rightarrow> vec4" where
  "mem5 = (\<lambda>_ _ _. (5, 5, 5, 5))"

text \<open>A batch of one image on one level of one row and three columns: the class score of
  a cell is its column, the regression outputs are 0.\<close>

definition example_cls4 :: tensor4 where
  "example_cls4 = \<lparr>batch4 = 1, chan4 = 1, rows4 = 1, cols4 = 3,
     elems4 = (\<lambda>b c y x. real x)\<rparr>"

definition example_reg4 :: tensor4 where
  "example_reg4 = \<lparr>batch4 = 1, chan4 = 4, rows4 = 1, cols4 = 3,
     elems4 = (\<lambda>_ _ _ _. 0)\<rparr>"

section \<open>Properties of the tensor primitives\<close>

lemma bindE_simps [simp]: "bindE (Inr v) f = f v" "bindE (Inl e) f = Inl e"
  by (simp_all add: bindE_def)

lemma bindE_eq_Inr: "bindE m f = Inr r \<longleftrightarrow> (\<exists>v. m = Inr v \<and> f v = Inr r)"
  by (cases m) simp_all

lemma clamp_bounds: "lo \<le> hi \<Longrightarrow> lo \<le> clamp lo hi v \<and> clamp lo hi v \<le> hi"
  by (auto simp: clamp_def)

lemma clamp_mono: "a \<le> b \<Longrightarrow> clamp lo hi a \<le> clamp lo hi b"
  by (auto simp: clamp_def min_def max_def)

lemma chunks_length:
  assumes "0 < n" "length xs mod n = 0" "r \<in> set (chunks n xs)"
  shows "length r = n"
proof -
  from assms(3) obtain i where i: "i < length xs div n" and r: "r = take n (drop (i * n) xs)"
    by (auto simp: chunks_def)
  from assms(2) have "length xs = (length xs div n) * n" by auto
  moreover from i have "(Suc i) * n \<le> (length xs div n) * n" 
    by (meson Suc_leI mult_le_mono1)
  ultimately have "i * n + n \<le> length xs" by simp
  then show ?thesis by (simp add: r)
qed

lemma reshape_rows_length:
  assumes "reshape_rows k xs = Inr rows" "r \<in> set rows"
  shows "length r = nat k" and "0 < k"
proof -
  from assms(1) have k: "0 < k" and m: "int (length xs) mod k = 0" and rows: "rows = chunks (nat k) xs"
    by (auto simp: reshape_rows_def split: if_splits)
  from k have ik: "int (nat k) = k" by simp
  from m have "int (length xs mod nat k) = 0"
    using ik by (simp add: zmod_int)
  then have a: "length xs mod nat k = 0" by simp
  from k have b: "0 < nat k" by simp
  from assms(2) rows have c: "r \<in> set (chunks (nat k) xs)" by simp
  show "length r = nat k" by (rule chunks_length[OF b a c])
  show "0 < k" by fact
qed

lemma chunks_concat:
  assumes "0 < n" "\<forall>r \<in> set rows. length r = n"
  shows "chunks n (concat rows) = rows"
  using assms(2)
proof (induction rows)
  case Nil
  then show ?case by (simp add: chunks_def)
next
  case (Cons r rows)
  then have lr: "length r = n" and IH: "chunks n (concat rows) = rows" by auto
  have len: "length (concat rows) = length rows * n"
    using Cons.prems by (induction rows) auto
  have "length (concat (r # rows)) div n = Suc (length rows)"
    using assms(1) lr len by simp
  then have "chunks n (concat (r # rows)) =
     map (\<lambda>i. take n (drop (i * n) (r @ concat rows))) [0..<Suc (length rows)]"
    by (simp add: chunks_def)
  also have "\<dots> = r # map (\<lambda>i. take n (drop (i * n) (concat rows))) [0..<length rows]"
    using lr by (simp add: map_upt_Suc del: upt_Suc)
  also have "map (\<lambda>i. take n (drop (i * n) (concat rows))) [0..<length rows] = chunks n (concat rows)"
    using assms(1) len by (simp add: chunks_def)
  finally show ?case using IH by simp
qed

lemma index_select_Inr:
  assumes "index_select xs inds = Inr ys"
  shows "set ys \<subseteq> set xs" and "length ys = length inds"
  using assms by (auto simp: index_select_def split: if_splits)

lemma bcast2_pair:
  assumes "bcast2 f xs ys = Inr r1" "bcast2 g xs zs = Inr r2" "length ys = length zs"
    "i < length r1"
  shows "\<exists>j k. j < length xs \<and> k < length ys \<and> r1 ! i = f (xs ! j) (ys ! k) \<and> r2 ! i = g (xs ! j) (zs ! k)"
proof -
  consider (eq) "length xs = length ys" | (l) "length xs \<noteq> length ys" "length xs = 1"
    | (r) "length xs \<noteq> length ys" "length xs \<noteq> 1" "length ys = 1"
    using assms(1) by (auto simp: bcast2_def split: if_splits)
  then show ?thesis
  proof cases
    case eq
    with assms have "r1 = map2 f xs ys" "r2 = map2 g xs zs" "i < length xs" "i < length ys"
      by (auto simp: bcast2_def)
    then show ?thesis using assms(3) eq by (intro exI[of _ i]) auto
  next
    case l
    with assms have "r1 = map (f (hd xs)) ys" "r2 = map (g (hd xs)) zs"
      by (auto simp: bcast2_def)
    moreover from l have "hd xs = xs ! 0" by (cases xs) auto
    ultimately show ?thesis using assms(3,4) l by (intro exI[of _ 0] exI[of _ i]) auto
  next
    case r
    with assms have "r1 = map (\<lambda>a. f a (hd ys)) xs" "r2 = map (\<lambda>a. g a (hd zs)) xs"
      by (auto simp: bcast2_def)
    moreover from r assms(3) have "hd ys = ys ! 0" "hd zs = zs ! 0"
      by (cases ys; cases zs; auto)+
    ultimately show ?thesis using assms(3,4) r by (intro exI[of _ i] exI[of _ 0]) auto
  qed
qed

lemma bcast2_length:
  assumes "bcast2 f xs ys = Inr r1" "bcast2 g xs zs = Inr r2" "length ys = length zs"
  shows "length r2 = length r1"
  using assms by (auto simp: bcast2_def split: if_splits)

lemma bcast2_length_eq:
  assumes "bcast2 f xs ys = Inr r" "length xs = length ys"
  shows "length r = length ys"
  using assms by (auto simp: bcast2_def split: if_splits)

section \<open>Properties of the decoder\<close>

lemma level_bbox_pred_rows:
  assumes "level_bbox_pred bp = Inr rows" "r \<in> set rows"
  shows "length r = 4" and "\<forall>v \<in> set r. 0 < v"
proof -
  from assms(1) obtain rows0 where r0: "reshape_rows 4 (permute_120 bp) = Inr rows0"
    and rows: "rows = map (map exp) rows0"
    by (auto simp: level_bbox_pred_def bindE_eq_Inr)
  from assms(2) rows obtain r0' where "r0' \<in> set rows0" "r = map exp r0'" by auto
  with reshape_rows_length(1)[OF r0] show "length r = 4" "\<forall>v \<in> set r. 0 < v" by auto
qed

lemma level_scores_rows:
  assumes "level_scores h cls = Inr rows" "r \<in> set rows"
  shows "length r = nat (cls_out_channels h)" and "0 < cls_out_channels h"
    and "\<forall>v \<in> set r. 0 < v \<and> v < 1"
proof -
  from assms(1) obtain rows0 where r0: "reshape_rows (cls_out_channels h) (permute_120 cls) = Inr rows0"
    and rows: "rows = map (map sigmoid) rows0"
    by (auto simp: level_scores_def bindE_eq_Inr)
  from assms(2) rows obtain r0' where r0': "r0' \<in> set rows0" "r = map sigmoid r0'" by auto
  with reshape_rows_length[OF r0] show "length r = nat (cls_out_channels h)" "0 < cls_out_channels h"
    by auto
  have "0 < sigmoid v \<and> sigmoid v < 1" for v
    by (simp add: sigmoid_def add_pos_pos)
  with r0' show "\<forall>v \<in> set r. 0 < v \<and> v < 1" by auto
qed

lemma nms_pre_filter_Inr:
  assumes "nms_pre_filter cfg bp sc y x = Inr (bp', sc', y', x')"
  shows "set bp' \<subseteq> set bp" and "set sc' \<subseteq> set sc"
    and "length bp = length sc \<and> length y = length sc \<and> length x = length sc
         \<Longrightarrow> length bp' = length sc' \<and> length y' = length sc' \<and> length x' = length sc'"
proof -
  consider (same) "bp' = bp" "sc' = sc" "y' = y" "x' = x"
    | (topk) inds where "index_select bp inds = Inr bp'" "index_select sc inds = Inr sc'"
        "index_select y inds = Inr y'" "index_select x inds = Inr x'"
    using assms
    by (auto simp: nms_pre_filter_def Let_def bindE_eq_Inr split: if_splits)
  then have "set bp' \<subseteq> set bp \<and> set sc' \<subseteq> set sc
     \<and> (length bp = length sc \<and> length y = length sc \<and> length x = length sc
         \<longrightarrow> length bp' = length sc' \<and> length y' = length sc' \<and> length x' = length sc')"
  proof cases
    case same
    then show ?thesis by simp
  next
    case topk
    from index_select_Inr[OF topk(1)] index_select_Inr[OF topk(2)]
      index_select_Inr[OF topk(3)] index_select_Inr[OF topk(4)]
    show ?thesis by simp
  qed
  then show "set bp' \<subseteq> set bp" and "set sc' \<subseteq> set sc"
    and "length bp = length sc \<and> length y = length sc \<and> length x = length sc
         \<Longrightarrow> length bp' = length sc' \<and> length y' = length sc' \<and> length x' = length sc'"
    by blast+
qed

lemma side_lo_le_side_hi:
  "0 \<le> base_len \<Longrightarrow> 0 \<le> e0 \<Longrightarrow> 0 \<le> e2 \<Longrightarrow> side_lo s base_len p e0 \<le> side_hi s base_len p e2"
proof -
  assume a: "0 \<le> base_len" "0 \<le> e0" "0 \<le> e2"
  then have "0 \<le> base_len * e0" "0 \<le> base_len * e2" by simp_all
  then show ?thesis by (simp add: side_lo_def side_hi_def)
qed

lemma decode_boxes_ok:
  assumes dec: "decode_boxes s bl img bp y x = Inr boxes"
    and rows: "\<forall>r \<in> set bp. length r = 4 \<and> (\<forall>v \<in> set r. 0 < v)"
    and bl: "0 \<le> bl" and img: "1 \<le> fst img" "1 \<le> snd img"
    and b: "b \<in> set boxes"
  shows "box_in_image img b"
proof -
  from dec obtain x1 y1 x2 y2 where
    x1: "bcast2 (side_lo s bl) x (column 0 bp) = Inr x1" and
    y1: "bcast2 (side_lo s bl) y (column 1 bp) = Inr y1" and
    x2: "bcast2 (side_hi s bl) x (column 2 bp) = Inr x2" and
    y2: "bcast2 (side_hi s bl) y (column 3 bp) = Inr y2" and
    st: "stack4 (clamp_img (snd img) x1) (clamp_img (fst img) y1)
                (clamp_img (snd img) x2) (clamp_img (fst img) y2) = Inr boxes"
    by (auto simp: decode_boxes_def bindE_eq_Inr)
  from st have len: "length y1 = length x1" "length x2 = length x1" "length y2 = length x1"
    and boxes: "boxes = map (\<lambda>i. [clamp_img (snd img) x1 ! i, clamp_img (fst img) y1 ! i,
                 clamp_img (snd img) x2 ! i, clamp_img (fst img) y2 ! i]) [0..<length x1]"
    by (auto simp: stack4_def clamp_img_def split: if_splits)
  from b boxes obtain i where i: "i < length x1"
    and bi: "b = [clamp_img (snd img) x1 ! i, clamp_img (fst img) y1 ! i,
                 clamp_img (snd img) x2 ! i, clamp_img (fst img) y2 ! i]"
    by auto
  have col: "0 \<le> column j bp ! k" if "k < length (column j bp)" "j < 4" for j k
  proof -
    from that have "bp ! k \<in> set bp" by (simp add: column_def)
    with rows have "length (bp ! k) = 4" "\<forall>v \<in> set (bp ! k). 0 < v" by auto
    with that have "0 < (bp ! k) ! j" by simp
    with that show ?thesis by (simp add: column_def)
  qed
  have lc: "length (column 0 bp) = length (column 2 bp)" "length (column 1 bp) = length (column 3 bp)"
    by (simp_all add: column_def)
  from bcast2_pair[OF x1 x2 lc(1) i] obtain j k where
    "k < length (column 0 bp)" "x1 ! i = side_lo s bl (x ! j) (column 0 bp ! k)"
    "x2 ! i = side_hi s bl (x ! j) (column 2 bp ! k)" by blast
  with col[of k 0] col[of k 2] lc have xle: "x1 ! i \<le> x2 ! i"
    by (simp add: side_lo_le_side_hi bl)
  from i len have iy: "i < length y1" by simp
  from bcast2_pair[OF y1 y2 lc(2) iy] obtain j k where
    "k < length (column 1 bp)" "y1 ! i = side_lo s bl (y ! j) (column 1 bp ! k)"
    "y2 ! i = side_hi s bl (y ! j) (column 3 bp ! k)" by blast
  with col[of k 1] col[of k 3] lc have yle: "y1 ! i \<le> y2 ! i"
    by (simp add: side_lo_le_side_hi bl)
  have W: "(0::real) \<le> real_of_int (snd img - 1)" and H: "(0::real) \<le> real_of_int (fst img - 1)"
    using img by simp_all
  have "b ! 0 = clamp 0 (real_of_int (snd img - 1)) (x1 ! i)"
       "b ! 2 = clamp 0 (real_of_int (snd img - 1)) (x2 ! i)"
       "b ! 1 = clamp 0 (real_of_int (fst img - 1)) (y1 ! i)"
       "b ! 3 = clamp 0 (real_of_int (fst img - 1)) (y2 ! i)"
    using i len by (simp_all add: bi clamp_img_def)
  moreover have "length b = 4" by (simp add: bi)
  ultimately show ?thesis
    using clamp_bounds[OF W] clamp_bounds[OF H] clamp_mono[OF xle] clamp_mono[OF yle]
    by (simp add: box_in_image_def)
qed

lemma decode_boxes_shape:
  assumes dec: "decode_boxes s bl img bp y x = Inr boxes"
  shows "\<forall>b \<in> set boxes. length b = 4"
    and "length y = length bp \<and> length x = length bp \<Longrightarrow> length boxes = length bp"
proof -
  from dec obtain x1 y1 x2 y2 where
    x1: "bcast2 (side_lo s bl) x (column 0 bp) = Inr x1" and
    st: "stack4 (clamp_img (snd img) x1) (clamp_img (fst img) y1)
                (clamp_img (snd img) x2) (clamp_img (fst img) y2) = Inr boxes"
    by (auto simp: decode_boxes_def bindE_eq_Inr)
  from st have boxes: "boxes = map (\<lambda>i. [clamp_img (snd img) x1 ! i, clamp_img (fst img) y1 ! i,
                 clamp_img (snd img) x2 ! i, clamp_img (fst img) y2 ! i]) [0..<length x1]"
    by (auto simp: stack4_def clamp_img_def split: if_splits)
  then show "\<forall>b \<in> set boxes. length b = 4" by auto
  assume "length y = length bp \<and> length x = length bp"
  then have "length x = length (column 0 bp)" by (simp add: column_def)
  from bcast2_length_eq[OF x1 this] show "length boxes = length bp"
    by (simp add: boxes column_def)
qed

lemma bindE_assoc: "bindE (bindE m f) g = bindE m (\<lambda>v. bindE (f v) g)"
  by (cases m) simp_all

lemma single_loop_step:
  "get_bboxes_single_loop h cfg img (l # rest) (B, S) =
     bindE (level_result h cfg img l)
       (\<lambda>(bs, ss). get_bboxes_single_loop h cfg img rest (B @ [bs], S @ [ss]))"
proof -
  obtain cls bp fs st bl y x where l: "l = (cls, bp, fs, st, bl, (y, x))"
    by (metis prod.collapse)
  show ?thesis
    by (simp add: l level_result_def bindE_assoc split_def)
qed

lemma aug_loop_step:
  "get_bboxes_single_aug_loop h cfg img (l # rest) (B, S) =
     bindE (level_result h cfg img l)
       (\<lambda>(bs, ss). get_bboxes_single_aug_loop h cfg img rest (B @ [bs], S @ [ss]))"
proof -
  obtain cls bp fs st bl y x where l: "l = (cls, bp, fs, st, bl, (y, x))"
    by (metis prod.collapse)
  show ?thesis
    by (simp add: l level_result_def bindE_assoc split_def)
qed

lemma aug_loop_eq_single_loop:
  "get_bboxes_single_aug_loop h cfg img ls acc = get_bboxes_single_loop h cfg img ls acc"
proof (induction ls arbitrary: acc)
  case Nil
  show ?case by (cases acc) simp
next
  case (Cons l ls)
  obtain B S where acc: "acc = (B, S)" by (cases acc)
  show ?case
    unfolding acc aug_loop_step single_loop_step by (simp add: Cons.IH)
qed

lemma single_loop_Inr:
  "get_bboxes_single_loop h cfg img ls (B, S) = Inr (B', S') \<Longrightarrow>
     \<exists>outs. map (level_result h cfg img) ls = map Inr outs
       \<and> B' = B @ map fst outs \<and> S' = S @ map snd outs"
proof (induction ls arbitrary: B S)
  case Nil
  then show ?case by simp
next
  case (Cons l ls)
  from Cons.prems obtain bs ss where lr: "level_result h cfg img l = Inr (bs, ss)"
    and rest: "get_bboxes_single_loop h cfg img ls (B @ [bs], S @ [ss]) = Inr (B', S')"
    unfolding single_loop_step by (auto simp: bindE_eq_Inr)
  from Cons.IH[OF rest] obtain outs where
    "map (level_result h cfg img) ls = map Inr outs"
    "B' = (B @ [bs]) @ map fst outs" "S' = (S @ [ss]) @ map snd outs" by blast
  with lr show ?case by (intro exI[of _ "(bs, ss) # outs"]) simp
qed

lemma pad_zero_column:
  "map2 (\<lambda>p r. p @ r) (replicate (length rs) [0::real]) rs = map (\<lambda>r. 0 # r) rs"
  by (induction rs) simp_all

lemma pre_nms_Inr:
  assumes "get_bboxes_single_pre_nms h cls bps fs pts img sf cfg rescale = Inr (boxes, scores)"
  shows "\<exists>outs. map (level_result h cfg img) (zip_levels h cls bps fs pts) = map Inr outs
       \<and> boxes = (if rescale then rescale_boxes sf (concat (map fst outs)) else concat (map fst outs))
       \<and> scores = map (\<lambda>r. 0 # r) (concat (map snd outs))"
proof -
  from assms obtain B S where
    loop: "get_bboxes_single_loop h cfg img (zip_levels h cls bps fs pts) ([], []) = Inr (B, S)"
    and boxes: "boxes = (if rescale then rescale_boxes sf (concat B) else concat B)"
    and scores: "scores = map2 (\<lambda>p r. p @ r) (replicate (length (concat S)) [0]) (concat S)"
    by (auto simp: get_bboxes_single_pre_nms_def bindE_eq_Inr cat_def Let_def split: if_splits)
  from single_loop_Inr[OF loop] obtain outs where
    "map (level_result h cfg img) (zip_levels h cls bps fs pts) = map Inr outs"
    "B = map fst outs" "S = map snd outs" by auto
  with boxes scores show ?thesis by (auto simp: pad_zero_column)
qed

lemma length_permute_120: "length (permute_120 t) = rows3 t * cols3 t * chan3 t"
  by (simp add: permute_120_def length_concat cells_def split_def comp_def sum_list_triv)

lemma level_scores_length:
  assumes "level_scores h cls = Inr rows" "int (chan3 cls) = cls_out_channels h"
  shows "length rows = rows3 cls * cols3 cls"
proof -
  from assms(1) obtain rows0 where r0: "reshape_rows (cls_out_channels h) (permute_120 cls) = Inr rows0"
    and rows: "rows = map (map sigmoid) rows0"
    by (auto simp: level_scores_def bindE_eq_Inr)
  from r0 have k: "0 < cls_out_channels h" and "rows0 = chunks (nat (cls_out_channels h)) (permute_120 cls)"
    by (auto simp: reshape_rows_def split: if_splits)
  moreover from assms(2) k have "nat (cls_out_channels h) = chan3 cls" "0 < chan3 cls" by auto
  ultimately show ?thesis by (simp add: rows chunks_def length_permute_120)
qed

lemma level_bbox_pred_length:
  assumes "level_bbox_pred bp = Inr rows" "chan3 bp = 4"
  shows "length rows = rows3 bp * cols3 bp"
  using assms
  by (auto simp: level_bbox_pred_def bindE_eq_Inr reshape_rows_def chunks_def length_permute_120
      split: if_splits)

lemma level_result_Inr:
  assumes lr: "level_result h cfg img (cls, bp, fs, st, bl, (y, x)) = Inr (bs, ss)"
  shows "\<forall>r \<in> set ss. length r = nat (cls_out_channels h) \<and> (\<forall>v \<in> set r. 0 < v \<and> v < 1)"
    and "ss \<noteq> [] \<Longrightarrow> 0 < cls_out_channels h"
    and "\<forall>b \<in> set bs. length b = 4"
    and "level_fits h (cls, bp, fs, st, bl, (y, x)) \<Longrightarrow> length bs = length ss"
    and "0 \<le> bl \<Longrightarrow> 1 \<le> fst img \<Longrightarrow> 1 \<le> snd img \<Longrightarrow> \<forall>b \<in> set bs. box_in_image img b"
proof -
  from lr obtain sc bp1 bp2 y2 x2 where
    eqs: "(rows3 cls, cols3 cls) = (rows3 bp, cols3 bp)" and
    sc: "level_scores h cls = Inr sc" and
    bp1: "level_bbox_pred bp = Inr bp1" and
    flt: "nms_pre_filter cfg bp1 sc y x = Inr (bp2, ss, y2, x2)" and
    dec: "decode_boxes st bl img bp2 y2 x2 = Inr bs"
    by (auto simp: level_result_def bindE_eq_Inr split: if_splits)
  note f = nms_pre_filter_Inr[OF flt]
  show "\<forall>r \<in> set ss. length r = nat (cls_out_channels h) \<and> (\<forall>v \<in> set r. 0 < v \<and> v < 1)"
    using f(2) level_scores_rows(1,3)[OF sc] by blast
  show "ss \<noteq> [] \<Longrightarrow> 0 < cls_out_channels h"
    using f(2) level_scores_rows(2)[OF sc] by (cases ss) auto
  show "\<forall>b \<in> set bs. length b = 4"
    by (rule decode_boxes_shape(1)[OF dec])
  have rows2: "\<forall>r \<in> set bp2. length r = 4 \<and> (\<forall>v \<in> set r. 0 < v)"
    using f(1) level_bbox_pred_rows[OF bp1] by blast
  show "\<forall>b \<in> set bs. box_in_image img b" if "0 \<le> bl" "1 \<le> fst img" "1 \<le> snd img"
    using decode_boxes_ok[OF dec rows2 that] by blast
  show "length bs = length ss" if fits: "level_fits h (cls, bp, fs, st, bl, (y, x))"
  proof -
    from fits have c: "int (chan3 cls) = cls_out_channels h" "chan3 bp = 4"
      "length y = rows3 cls * cols3 cls" "length x = rows3 cls * cols3 cls"
      by (simp_all add: level_fits_def)
    from level_scores_length[OF sc c(1)] level_bbox_pred_length[OF bp1 c(2)] eqs c(3,4)
    have "length bp1 = length sc \<and> length y = length sc \<and> length x = length sc" by simp
    from f(3)[OF this] decode_boxes_shape(2)[OF dec] show ?thesis by simp
  qed
qed

lemma rescale_boxes_shape:
  "length (rescale_boxes sf bs) = length bs"
  "\<forall>b \<in> set bs. length b = 4 \<Longrightarrow> \<forall>b \<in> set (rescale_boxes sf bs). length b = 4"
  by (cases sf; auto)+

lemma outs_props:
  assumes "map (level_result h cfg img) ls = map Inr outs"
  shows "\<forall>(bs, ss) \<in> set outs. \<exists>l \<in> set ls. level_result h cfg img l = Inr (bs, ss)"
proof -
  have len: "length ls = length outs"
    using assms by (rule map_eq_imp_length_eq)
  have "\<exists>l \<in> set ls. level_result h cfg img l = Inr out" if "out \<in> set outs" for out
  proof -
    from that obtain i where i: "i < length outs" "outs ! i = out"
      by (auto simp: in_set_conv_nth)
    have "level_result h cfg img (ls ! i) = map (level_result h cfg img) ls ! i"
      using i len by simp
    also have "\<dots> = Inr out" using i by (simp add: assms)
    finally show ?thesis using i len by (metis nth_mem)
  qed
  then show ?thesis by auto
qed

lemma outs_lengths:
  assumes "map (level_result h cfg img) ls = map Inr outs" "\<forall>l \<in> set ls. level_fits h l"
  shows "length (concat (map fst outs)) = length (concat (map snd outs))"
  using assms
proof (induction ls arbitrary: outs)
  case Nil
  then show ?case by simp
next
  case (Cons l ls)
  then obtain o1 outs' where o: "outs = o1 # outs'" by (cases outs) auto
  obtain bs ss where o1: "o1 = (bs, ss)" by (cases o1)
  obtain cls bp fs st bl y x where l: "l = (cls, bp, fs, st, bl, (y, x))"
    by (metis prod.collapse)
  from Cons.prems o o1 have lr: "level_result h cfg img l = Inr (bs, ss)"
    and rest: "map (level_result h cfg img) ls = map Inr outs'" by auto
  from Cons.prems(2) have "level_fits h l" "\<forall>l \<in> set ls. level_fits h l" by auto
  with level_result_Inr(4)[OF lr[unfolded l]] Cons.IH[OF rest] show ?case
    by (simp add: o o1 l)
qed

lemma zip_levels_base:
  assumes "(cls, bp, fs, st, bl, pt) \<in> set (zip_levels h clss bps fss pts)"
  shows "bl \<in> set (base_edge_list h)"
proof -
  from assms have "(bp, fs, st, bl, pt) \<in> set (zip bps (zip fss (zip (strides h) (zip (base_edge_list h) pts))))"
    unfolding zip_levels_def by (rule set_zip_rightD)
  then have "(fs, st, bl, pt) \<in> set (zip fss (zip (strides h) (zip (base_edge_list h) pts)))"
    by (rule set_zip_rightD)
  then have "(st, bl, pt) \<in> set (zip (strides h) (zip (base_edge_list h) pts))"
    by (rule set_zip_rightD)
  then have "(bl, pt) \<in> set (zip (base_edge_list h) pts)"
    by (rule set_zip_rightD)
  then show ?thesis by (rule set_zip_leftD)
qed

text \<open>
  Claim C4 (as amended). A single level with stride 8 and base edge 16: the cell at
  \<open>(y, x) = (10.5, 20.5)\<close> with raw regression prediction 0 in each channel, that is 1
  in each channel after the exponential, has the side expressions
  \<open>(148, 68, 180, 100)\<close> before the clamp, and the decoder returns this box for an
  image large enough for the clamp not to act.
\<close>

theorem decode_scenario:
  "box_before_clamp 8 16 (21 / 2, 41 / 2) (map exp [0, 0, 0, 0]) = [148, 68, 180, 100]
   \<and> decode_boxes 8 16 (1000, 1000) [map exp [0, 0, 0, 0]] [21 / 2] [41 / 2]
       = Inr [[148, 68, 180, 100]]"
  by (simp add: box_before_clamp_def decode_boxes_def bcast2_def column_def side_lo_def
      side_hi_def stack4_def clamp_img_def clamp_def)

text \<open>The box \<open>(168, 84, 168, 84)\<close> of the claim is not what the arithmetic gives, neither
  for the raw prediction 0 nor for exponentiated offsets 0 (which no raw prediction
  produces): the stride times the abscissa is 164.\<close>

theorem decode_scenario_counterexample:
  "box_before_clamp 8 16 (21 / 2, 41 / 2) (map exp [0, 0, 0, 0]) \<noteq> [168, 84, 168, 84]
   \<and> box_before_clamp 8 16 (21 / 2, 41 / 2) [0, 0, 0, 0] \<noteq> [168, 84, 168, 84]"
  by (simp add: box_before_clamp_def side_lo_def side_hi_def)

lemma example_pre_nms:
  "get_bboxes_single_pre_nms example_head [example_cls] [example_reg]
     [(1, 1)] [([1 / 2], [1 / 2])] (100, 100) (Scalar 1) example_cfg False
   = Inr ([[0, 0, 20, 20]], [[0, 1 / 2]])"
proof -
  have p1: "permute_120 (example_cls) = [0]"
    and p4: "permute_120 (example_reg) = [0, 0, 0, 0]"
    by (simp_all add: permute_120_def example_cls_def example_reg_def cells_def upt_rec)
  have sc: "level_scores example_head (example_cls) = Inr [[1 / 2]]"
    unfolding level_scores_def p1
    by (simp add: reshape_rows_def chunks_def cls_out_channels_def example_head_def sigmoid_def)
  have bp: "level_bbox_pred (example_reg) = Inr [[1, 1, 1, 1]]"
    unfolding level_bbox_pred_def p4
    by (simp add: reshape_rows_def chunks_def)
  have flt: "nms_pre_filter example_cfg [[1, 1, 1, 1]] [[1 / 2]] [1 / 2] [1 / 2]
      = Inr ([[1, 1, 1, 1]], [[1 / 2]], [1 / 2], [1 / 2])"
    by (simp add: nms_pre_filter_def example_cfg_def)
  have dec: "decode_boxes 8 16 (100, 100) [[1, 1, 1, 1]] [1 / 2] [1 / 2] = Inr [[0, 0, 20, 20]]"
    by (simp add: decode_boxes_def bcast2_def column_def side_lo_def side_hi_def stack4_def
        clamp_img_def clamp_def)
  have lr: "level_result example_head example_cfg (100, 100)
      (example_cls, example_reg, (1, 1), 8, 16, ([1 / 2], [1 / 2]))
      = Inr ([[0, 0, 20, 20]], [[1 / 2]])"
  proof -
    have c: "rows3 (example_cls) = rows3 (example_reg)"
      "cols3 (example_cls) = cols3 (example_reg)"
      by (simp_all add: example_cls_def example_reg_def)
    show ?thesis by (simp add: level_result_def c sc bp flt dec)
  qed
  have z: "zip_levels example_head [example_cls] [example_reg]
     [(1, 1)] [([1 / 2], [1 / 2])]
     = [(example_cls, example_reg, (1, 1), 8, 16, ([1 / 2], [1 / 2]))]"
    by (simp add: zip_levels_def example_head_def)
  show ?thesis
    unfolding get_bboxes_single_pre_nms_def z single_loop_step lr
    by (simp add: cat_def)
qed

text \<open>
  Claim C10. With rescaling disabled, every box that the decoder hands on is well-formed
  and inside the image: \<open>0 \<le> x1 \<le> x2 \<le> width - 1\<close> and \<open>0 \<le> y1 \<le> y2 \<le> height - 1\<close>,
  for all raw predictions and whatever the pre-filter keeps. The exponential makes the
  side offsets positive and the clamp is monotone. The image has at least one pixel in
  each direction and no base edge length is negative.
\<close>

theorem decoded_boxes_in_image:
  assumes "get_bboxes_single_pre_nms h cls_scores bbox_preds featmap_sizes point_list img_shape
             scale_factor cfg False = Inr (boxes, scores)"
    and "\<forall>base_len \<in> set (base_edge_list h). 0 \<le> base_len"
    and "1 \<le> fst img_shape" and "1 \<le> snd img_shape"
  shows "\<forall>b \<in> set boxes. box_in_image img_shape b"
proof
  fix b assume b: "b \<in> set boxes"
  from pre_nms_Inr[OF assms(1)] obtain outs where
    outs: "map (level_result h cfg img_shape)
             (zip_levels h cls_scores bbox_preds featmap_sizes point_list) = map Inr outs"
    and boxes: "boxes = concat (map fst outs)" by auto
  from b boxes obtain bs ss where o: "(bs, ss) \<in> set outs" and bb: "b \<in> set bs" by auto
  from outs_props[OF outs] o obtain l where
    l: "l \<in> set (zip_levels h cls_scores bbox_preds featmap_sizes point_list)"
    and lr: "level_result h cfg img_shape l = Inr (bs, ss)" by blast
  obtain cls bp fs st bl y x where le: "l = (cls, bp, fs, st, bl, (y, x))"
    by (metis prod.collapse)
  from zip_levels_base[OF l[unfolded le]] assms(2) have "0 \<le> bl" by simp
  from level_result_Inr(5)[OF lr[unfolded le] this assms(3,4)] bb
  show "box_in_image img_shape b" by simp
qed

theorem decoded_boxes_in_image_witness:
  "get_bboxes_single_pre_nms example_head [example_cls] [example_reg]
     [(1, 1)] [([1 / 2], [1 / 2])] (100, 100) (Scalar 1) example_cfg False
   = Inr ([[0, 0, 20, 20]], [[0, 1 / 2]])
   \<and> base_edge_list example_head = [16]
   \<and> box_in_image (100, 100) [0, 0, 20, 20]"
proof -
  have e: "base_edge_list example_head = [16]"
    by (simp add: example_head_def)
  then have a: "\<forall>base_len \<in> set (base_edge_list example_head). 0 \<le> base_len"
    by simp
  have "\<forall>b \<in> set [[0, 0, 20, 20]]. box_in_image (100, 100) b"
    by (rule decoded_boxes_in_image[OF example_pre_nms a]) simp_all
  then have "box_in_image (100, 100) [0, 0, 20, 20]" by simp
  with e example_pre_nms show ?thesis by simp
qed

text \<open>
  Claim C8 (as amended). The score matrix handed to the suppression step has
  \<open>cls_out_channels + 1\<close> columns, which is \<open>num_classes\<close> of the head (its
  \<open>num_classes\<close> already counts the background) and not \<open>num_classes + 1\<close>. Column 0
  is zero, the other columns are the sigmoid rows of the levels, concatenated. The box
  matrix has four columns, and as many rows as the score matrix when the tensors and
  points of every level fit together.
\<close>

theorem score_matrix_shape:
  assumes "get_bboxes_single_pre_nms h cls_scores bbox_preds featmap_sizes point_list img_shape
             scale_factor cfg rescale = Inr (boxes, scores)"
  shows "(\<forall>r \<in> set scores. int (length r) = num_classes h \<and> length r = nat (cls_out_channels h) + 1
            \<and> r ! 0 = 0 \<and> (\<forall>v \<in> set (tl r). 0 < v \<and> v < 1))
       \<and> (\<forall>b \<in> set boxes. length b = 4)
       \<and> (\<exists>outs. map (level_result h cfg img_shape)
                     (zip_levels h cls_scores bbox_preds featmap_sizes point_list) = map Inr outs
             \<and> scores = map (\<lambda>r. 0 # r) (concat (map snd outs)))
       \<and> ((\<forall>l \<in> set (zip_levels h cls_scores bbox_preds featmap_sizes point_list). level_fits h l)
            \<longrightarrow> length boxes = length scores)"
proof -
  let ?ls = "zip_levels h cls_scores bbox_preds featmap_sizes point_list"
  from pre_nms_Inr[OF assms] obtain outs where
    outs: "map (level_result h cfg img_shape) ?ls = map Inr outs"
    and boxes: "boxes = (if rescale then rescale_boxes scale_factor (concat (map fst outs))
                         else concat (map fst outs))"
    and scores: "scores = map (\<lambda>r. 0 # r) (concat (map snd outs))" by auto
  have lev: "\<exists>cls bp fs st bl y x. level_result h cfg img_shape (cls, bp, fs, st, bl, (y, x)) = Inr (bs, ss)"
    if "(bs, ss) \<in> set outs" for bs ss
  proof -
    from outs_props[OF outs] that obtain l where
      lr: "level_result h cfg img_shape l = Inr (bs, ss)" by blast
    obtain cls bp fs st bl y x where le: "l = (cls, bp, fs, st, bl, (y, x))"
      by (metis prod.collapse)
    with lr show ?thesis by blast
  qed
  have c1: "\<forall>r \<in> set scores. int (length r) = num_classes h \<and> length r = nat (cls_out_channels h) + 1
            \<and> r ! 0 = 0 \<and> (\<forall>v \<in> set (tl r). 0 < v \<and> v < 1)"
  proof
    fix r assume "r \<in> set scores"
    with scores obtain bs ss r' where o: "(bs, ss) \<in> set outs" "r' \<in> set ss" "r = 0 # r'"
      by auto
    from lev[OF o(1)] obtain cls bp fs st bl y x where
      lr: "level_result h cfg img_shape (cls, bp, fs, st, bl, (y, x)) = Inr (bs, ss)" by blast
    from o(2) have "ss \<noteq> []" by auto
    with level_result_Inr(1,2)[OF lr] o(2)
    have "length r' = nat (cls_out_channels h)" "\<forall>v \<in> set r'. 0 < v \<and> v < 1"
      "0 < cls_out_channels h" by auto
    then show "int (length r) = num_classes h \<and> length r = nat (cls_out_channels h) + 1
            \<and> r ! 0 = 0 \<and> (\<forall>v \<in> set (tl r). 0 < v \<and> v < 1)"
      by (simp add: o(3) cls_out_channels_def)
  qed
  have c2: "\<forall>b \<in> set boxes. length b = 4"
  proof -
    have "\<forall>b \<in> set (concat (map fst outs)). length b = 4"
    proof
      fix b assume "b \<in> set (concat (map fst outs))"
      then obtain bs ss where o: "(bs, ss) \<in> set outs" "b \<in> set bs" by auto
      from lev[OF o(1)] obtain cls bp fs st bl y x where
        lr: "level_result h cfg img_shape (cls, bp, fs, st, bl, (y, x)) = Inr (bs, ss)" by blast
      from level_result_Inr(3)[OF lr] o(2) show "length b = 4" by simp
    qed
    with rescale_boxes_shape(2)[of "concat (map fst outs)" scale_factor] boxes
    show ?thesis by (cases rescale) simp_all
  qed
  have c4: "length boxes = length scores" if "\<forall>l \<in> set ?ls. level_fits h l"
    using outs_lengths[OF outs that] by (simp add: boxes scores rescale_boxes_shape(1))
  from c1 c2 c4 outs scores show ?thesis by blast
qed

lemma example_zip:
  "zip_levels example_head [example_cls] [example_reg] [(1, 1)] [([1 / 2], [1 / 2])]
   = [(example_cls, example_reg, (1, 1), 8, 16, ([1 / 2], [1 / 2]))]"
  by (simp add: zip_levels_def example_head_def)

lemma example_fits:
  "level_fits example_head (example_cls, example_reg, (1, 1), 8, 16, ([1 / 2], [1 / 2]))"
  by (simp add: level_fits_def example_head_def example_cls_def example_reg_def
      cls_out_channels_def)

theorem score_matrix_shape_witness:
  "get_bboxes_single_pre_nms example_head [example_cls] [example_reg]
     [(1, 1)] [([1 / 2], [1 / 2])] (100, 100) (Scalar 1) example_cfg False
   = Inr ([[0, 0, 20, 20]], [[0, 1 / 2]])
   \<and> level_fits example_head (example_cls, example_reg, (1, 1), 8, 16, ([1 / 2], [1 / 2]))
   \<and> int (length [0, 1 / 2 :: real]) = num_classes example_head
   \<and> [0, 1 / 2 :: real] ! 0 = 0
   \<and> length [[0, 0, 20, 20 :: real]] = length [[0, 1 / 2 :: real]]"
proof -
  note t = score_matrix_shape[OF example_pre_nms]
  from t have "\<forall>r \<in> set [[0, 1 / 2 :: real]]. int (length r) = num_classes example_head"
    by blast
  then have a: "int (length [0, 1 / 2 :: real]) = num_classes example_head"
    by simp
  from t have "(\<forall>l \<in> set (zip_levels example_head [example_cls] [example_reg] [(1, 1)]
                  [([1 / 2], [1 / 2])]). level_fits example_head l)
      \<longrightarrow> length [[0, 0, 20, 20 :: real]] = length [[0, 1 / 2 :: real]]"
    by blast
  with example_fits have b: "length [[0, 0, 20, 20 :: real]] = length [[0, 1 / 2 :: real]]"
    unfolding example_zip by simp
  from example_pre_nms example_fits a b show ?thesis by simp
qed

text \<open>At the example the head has \<open>num_classes = 2\<close> and the score rows have two
  columns, not three.\<close>

theorem score_matrix_shape_counterexample:
  "get_bboxes_single_pre_nms example_head [example_cls] [example_reg]
     [(1, 1)] [([1 / 2], [1 / 2])] (100, 100) (Scalar 1) example_cfg False
   = Inr ([[0, 0, 20, 20]], [[0, 1 / 2]])
   \<and> int (length [0, 1 / 2 :: real]) \<noteq> num_classes example_head + 1"
  using example_pre_nms by (simp add: example_head_def)

text \<open>
  Claim C9. On the same arguments \<^verbatim>\<open>get_bboxes_single_aug\<close> returns the pair of box
  and score matrices that \<^verbatim>\<open>get_bboxes_single\<close> has computed when it calls the
  suppression step (or raises as it does), so that \<^verbatim>\<open>get_bboxes_single\<close> is the
  suppression step applied to the result of \<^verbatim>\<open>get_bboxes_single_aug\<close>.
\<close>

theorem aug_equals_single_before_nms:
  "get_bboxes_single_aug h cls_scores bbox_preds featmap_sizes point_list img_shape
       scale_factor cfg rescale
   = get_bboxes_single_pre_nms h cls_scores bbox_preds featmap_sizes point_list img_shape
       scale_factor cfg rescale
   \<and> get_bboxes_single multiclass_nms h cls_scores bbox_preds featmap_sizes point_list img_shape
       scale_factor cfg rescale debug
   = bindE (get_bboxes_single_aug h cls_scores bbox_preds featmap_sizes point_list img_shape
              scale_factor cfg rescale)
       (\<lambda>(det_bboxes, det_scores).
          if debug
          then Inr (multiclass_nms det_bboxes det_scores (cfg_k cfg) (cfg_agg_thr cfg)
                      (cfg_score_thr cfg) (cfg_nms cfg) (cfg_max_per_img cfg))
          else Inr (multiclass_nms det_bboxes det_scores (cfg_score_thr cfg) (cfg_k cfg)
                      (cfg_agg_thr cfg) (cfg_nms cfg) (cfg_max_per_img cfg)))"
proof -
  have "get_bboxes_single_aug h cls_scores bbox_preds featmap_sizes point_list img_shape
       scale_factor cfg rescale
   = get_bboxes_single_pre_nms h cls_scores bbox_preds featmap_sizes point_list img_shape
       scale_factor cfg rescale"
    unfolding get_bboxes_single_aug_def get_bboxes_single_pre_nms_def aug_loop_eq_single_loop ..
  then show ?thesis by (simp add: get_bboxes_single_def)
qed

section \<open>Properties of the target builder\<close>

lemma sqrt_256: "sqrt 256 = 16"
  by (rule real_sqrt_unique) simp_all

subsection \<open>Evaluating the floating-point roundings\<close>

lemma pow2_powr: "pow2 k = 2 powr of_int k"
  by (simp add: pow2_def powr_real_of_int inverse_eq_divide)

lemma powr_int_nat: "2 powr of_int (int n) = (2 :: real) ^ n"
  by (simp add: powr_realpow)

lemma powr_int_neg: "2 powr of_int (- int n) = 1 / (2 :: real) ^ n"
  by (simp add: powr_minus_divide powr_realpow)

lemma binade_ge_1:
  assumes "1 \<le> a"
  shows "\<lfloor>log 2 a\<rfloor> = int (floorlog 2 (nat \<lfloor>a\<rfloor>)) - 1"
proof -
  let ?n = "nat \<lfloor>a\<rfloor>"
  let ?fl = "floorlog 2 ?n"
  from assms have n: "0 < ?n" by simp
  from assms have na: "real ?n \<le> a" "a < real ?n + 1" by linarith+
  from floorlog_bounds[OF n, of 2] have b: "2 ^ (?fl - 1) \<le> ?n" "?n < 2 ^ ?fl" by simp_all
  from n have fl: "0 < ?fl" by (simp add: floorlog_def)
  from b(1) have "real (2 ^ (?fl - 1)) \<le> real ?n" by (rule of_nat_mono)
  then have "(2 :: real) ^ (?fl - 1) \<le> real ?n" by (simp only: of_nat_power of_nat_numeral)
  with na(1) have lo: "(2 :: real) ^ (?fl - 1) \<le> a" by linarith
  from b(2) have "?n + 1 \<le> 2 ^ ?fl" by linarith
  then have "real (?n + 1) \<le> real (2 ^ ?fl)" by (rule of_nat_mono)
  then have "real ?n + 1 \<le> (2 :: real) ^ ?fl"
    by (simp only: of_nat_power of_nat_numeral of_nat_add of_nat_1)
  with na(2) have hi: "a < (2 :: real) ^ ?fl" by linarith
  from fl have e1: "int ?fl - 1 = int (?fl - 1)" by linarith
  have e2: "int ?fl - 1 + 1 = int ?fl" by simp
  have p1: "2 powr of_int (int ?fl - 1) = (2 :: real) ^ (?fl - 1)"
    unfolding e1 by (rule powr_int_nat)
  have p2: "2 powr of_int (int ?fl - 1 + 1) = (2 :: real) ^ ?fl"
    unfolding e2 by (rule powr_int_nat)
  from assms have "0 < a" by simp
  from floor_log_eq_powr_iff[OF this, of 2 "int ?fl - 1"] lo hi p1 p2 show ?thesis
    by simp
qed

lemma binade_lt_1:
  assumes "0 < a" "a < 1"
  shows "\<lfloor>log 2 a\<rfloor> = - int (floorlog 2 (nat \<lceil>1 / a\<rceil> - 1))"
proof -
  let ?t = "1 / a"
  let ?m = "nat \<lceil>?t\<rceil> - 1"
  let ?fl = "floorlog 2 ?m"
  from assms have t1: "1 < ?t" by simp
  then have c2: "2 \<le> \<lceil>?t\<rceil>" by linarith
  then have m: "0 < ?m" by linarith
  from c2 have n1: "1 \<le> nat \<lceil>?t\<rceil>" by linarith
  from c2 have "0 \<le> \<lceil>?t\<rceil>" by linarith
  then have "real (nat \<lceil>?t\<rceil>) = of_int \<lceil>?t\<rceil>" by (rule of_nat_nat)
  with of_nat_diff[OF n1, where ?'a = real] have rm: "real ?m = of_int \<lceil>?t\<rceil> - 1"
    by simp
  have tm: "real ?m < ?t" "?t \<le> real ?m + 1" unfolding rm by linarith+
  from floorlog_bounds[OF m, of 2] have b: "2 ^ (?fl - 1) \<le> ?m" "?m < 2 ^ ?fl" by simp_all
  from m have fl: "0 < ?fl" by (simp add: floorlog_def)
  from b(1) have "real (2 ^ (?fl - 1)) \<le> real ?m" by (rule of_nat_mono)
  then have "(2 :: real) ^ (?fl - 1) \<le> real ?m" by (simp only: of_nat_power of_nat_numeral)
  with tm(1) have lo: "(2 :: real) ^ (?fl - 1) < ?t" by linarith
  from b(2) have "?m + 1 \<le> 2 ^ ?fl" by linarith
  then have "real (?m + 1) \<le> real (2 ^ ?fl)" by (rule of_nat_mono)
  then have "real ?m + 1 \<le> (2 :: real) ^ ?fl"
    by (simp only: of_nat_power of_nat_numeral of_nat_add of_nat_1)
  with tm(2) have hi: "?t \<le> (2 :: real) ^ ?fl" by linarith
  from fl have e1: "- int ?fl + 1 = - int (?fl - 1)" by linarith
  have p1: "2 powr of_int (- int ?fl) = 1 / (2 :: real) ^ ?fl"
    by (rule powr_int_neg)
  have p2: "2 powr of_int (- int ?fl + 1) = 1 / (2 :: real) ^ (?fl - 1)"
    unfolding e1 by (rule powr_int_neg)
  from hi assms(1) have h1: "1 / (2 :: real) ^ ?fl \<le> a"
    by (simp add: field_simps)
  from lo assms(1) have h2: "a < 1 / (2 :: real) ^ (?fl - 1)"
    by (simp add: field_simps)
  from floor_log_eq_powr_iff[OF assms(1), of 2 "- int ?fl"] h1 h2 p1 p2 show ?thesis
    by simp
qed

lemma binade_log: "x \<noteq> 0 \<Longrightarrow> binade x = \<lfloor>log 2 \<bar>x\<bar>\<rfloor>"
  using binade_ge_1[of "\<bar>x\<bar>"] binade_lt_1[of "\<bar>x\<bar>"] by (simp add: binade_def)

lemma binade_eq:
  assumes "pow2 e \<le> \<bar>x\<bar>" "\<bar>x\<bar> < pow2 (e + 1)"
  shows "binade x = e"
proof -
  have "0 < pow2 e" by (simp add: pow2_powr)
  with assms(1) have pos: "0 < \<bar>x\<bar>" by linarith
  then have "x \<noteq> 0" by simp
  from floor_log_eq_powr_iff[OF pos, of 2 e] assms binade_log[OF this] show ?thesis
    by (simp add: pow2_powr)
qed

lemma binade_vals:
  "binade (1 / 8) = - 3"
  "binade (1 / 4) = - 2"
  "binade (2 / 5) = - 2"
  "binade (1 / 2) = - 1"
  "binade (5404319552844595 / 9007199254740992) = - 1"
  "binade (5033165 / 8388608) = - 1"
  "binade (2936013 / 4194304) = - 1"
  "binade (3 / 4) = - 1"
  "binade (25165825 / 33554432) = - 1"
  "binade (15099495 / 16777216) = - 1"
  "binade (1887437 / 2097152) = - 1"
  "binade (1) = 0"
  "binade (9227469 / 8388608) = 0"
  "binade (5033165 / 4194304) = 0"
  "binade (5 / 4) = 0"
  "binade (11744051 / 8388608) = 0"
  "binade (3152519739159347 / 2251799813685248) = 0"
  "binade (12610078956637389 / 9007199254740992) = 0"
  "binade (23488103 / 16777216) = 0"
  "binade (3 / 2) = 0"
  "binade (58720255 / 33554432) = 0"
  "binade (7 / 4) = 0"
  "binade (15938355 / 8388608) = 0"
  "binade (2) = 1"
  "binade (4404019 / 2097152) = 1"
  "binade (35232153 / 16777216) = 1"
  "binade (9646899 / 4194304) = 1"
  "binade (5 / 2) = 1"
  "binade (5452595 / 2097152) = 1"
  "binade (11744051 / 4194304) = 1"
  "binade (3) = 1"
  "binade (12582913 / 4194304) = 1"
  "binade (226492425 / 67108864) = 1"
  "binade (7 / 2) = 1"
  "binade (14680065 / 4194304) = 1"
  "binade (4) = 2"
  "binade (45 / 8) = 2"
  "binade (14680065 / 2097152) = 2"
  "binade (15 / 2) = 2"
  "binade (125829125 / 16777216) = 2"
  "binade (15728641 / 2097152) = 2"
  "binade (528482295 / 67108864) = 2"
  "binade (8) = 3"
  "binade (45 / 4) = 3"
  "binade (91 / 8) = 3"
  "binade (25 / 2) = 3"
  "binade (17) = 4"
  "binade (293601275 / 16777216) = 4"
  "binade (35 / 2) = 4"
  "binade (25) = 4"
  by (rule binade_eq, simp add: pow2_def, simp add: pow2_def)+

lemmas float_eval = f32_def f64_def round_binary_def rne_def pow2_def to_long_def Let_def
  binade_vals

lemma sigma_0_4_value: "sigma_0_4 = 3602879701896397 / 9007199254740992"
  by (simp add: sigma_0_4_def float_eval)

text \<open>An evaluation in stages: every rounding is a fact of its own.\<close>

lemma pos_region_staged:
  assumes "f32 stride = s"
    and "f32 (px / s) = xa" and "f32 (py / s) = ya"
    and "f32 (qx / s) = xb" and "f32 (qy / s) = yb"
    and "f32 (1 / 2 * f32 (xb - xa)) = hw" and "f32 (1 / 2 * f32 (yb - ya)) = hh"
    and "f32 (f64 (1 - sg)) = lo" and "f32 (f64 (1 + sg)) = hi"
    and "to_long (of_int \<lceil>f32 (f32 (xa + f32 (lo * hw)) - 1 / 2)\<rceil>) = l"
    and "to_long (of_int \<lceil>f32 (f32 (ya + f32 (lo * hh)) - 1 / 2)\<rceil>) = t"
    and "to_long (of_int \<lfloor>f32 (f32 (xa + f32 (hi * hw)) - 1 / 2)\<rfloor>) = r"
    and "to_long (of_int \<lfloor>f32 (f32 (ya + f32 (hi * hh)) - 1 / 2)\<rfloor>) = d"
  shows "pos_region sg stride (H, W) (px, py, qx, qy) =
           (clamp 0 (int W - 1) l, clamp 0 (int H - 1) t,
            clamp 0 (int W - 1) r, clamp 0 (int H - 1) d)"
  unfolding pos_region_def Let_def using assms by simp


text \<open>The rounding matters: a box from 0.5 to 45.5 on stride 4 has the left bound 4,
  where the same expression in exact arithmetic is the ceiling of 3, because the
  float32 nearest to 0.6 lies above 0.6.\<close>

lemma example_region_rounding:
  "pos_region sigma_0_4 4 (8, 16) (1 / 2, 0, 91 / 2, 16) = (4, 1, 7, 2)"
proof -
  have "pos_region sigma_0_4 4 (8, 16) (1 / 2, 0, 91 / 2, 16) =
          (clamp 0 (int 16 - 1) 4, clamp 0 (int 8 - 1) 1,
           clamp 0 (int 16 - 1) 7, clamp 0 (int 8 - 1) 2)"
    by (rule pos_region_staged
          [where s="4" and xa="1 / 8" and ya="0" and xb="91 / 8" and yb="4" and hw="45 / 8" and hh="2" and lo="5033165 / 8388608" and hi="11744051 / 8388608"])
       (simp_all add: sigma_0_4_value float_eval)
  then show ?thesis by (simp add: clamp_def)
qed

lemma cell_of_paint_box:
  "cell_of (paint_box st bl y x off S it) r c =
     (if in_slice (fst it) r c then item_value st bl y x off it r c else cell_of S r c)"
  by (cases S; cases it) (auto simp: cell_of_def paint_box_def item_value_def)

lemma cell_of_foldl_none:
  "\<forall>it \<in> set its. \<not> in_slice (fst it) r c \<Longrightarrow>
     cell_of (foldl (paint_box st bl y x off) S its) r c = cell_of S r c"
  by (induction its arbitrary: S) (simp_all add: cell_of_paint_box)

lemma cell_of_foldl_last:
  assumes "in_slice (fst it) r c" "\<forall>it' \<in> set its2. \<not> in_slice (fst it') r c"
  shows "cell_of (foldl (paint_box st bl y x off) S (its1 @ it # its2)) r c
         = item_value st bl y x off it r c"
  using assms by (simp add: cell_of_foldl_none cell_of_paint_box)

lemma cell_of_foldl_cases:
  "(cell_of (foldl (paint_box st bl y x off) S its) r c = cell_of S r c
      \<and> (\<forall>it \<in> set its. \<not> in_slice (fst it) r c))
   \<or> (\<exists>it \<in> set its. in_slice (fst it) r c
         \<and> cell_of (foldl (paint_box st bl y x off) S its) r c = item_value st bl y x off it r c)"
proof (cases "\<exists>it \<in> set its. in_slice (fst it) r c")
  case False
  then show ?thesis by (simp add: cell_of_foldl_none)
next
  case True
  then obtain its1 it its2 where its: "its = its1 @ it # its2" and
    it: "in_slice (fst it) r c" and rest: "\<forall>it' \<in> set its2. \<not> in_slice (fst it') r c"
    using split_list_last_prop[of its "\<lambda>it. in_slice (fst it) r c"] by blast
  from cell_of_foldl_last[OF it rest] its it show ?thesis by auto
qed

lemma zip_items:
  "zip (map f xs) (zip (map g xs) (zip xs (map k xs))) = map (\<lambda>i. (f i, g i, i, k i)) xs"
  by (induction xs) simp_all

lemma index_select_nth:
  "index_select xs inds = Inr ys \<Longrightarrow> ys = map (\<lambda>i. xs ! i) inds \<and> (\<forall>i \<in> set inds. i < length xs)"
  by (auto simp: index_select_def split: if_splits)

lemma target_level_cell:
  assumes tl: "target_level sg off bs ls mem (bl, (lo, hi), st, fs, (y, x)) = Inr (L, T, I)"
  defines "ord \<equiv> sort_hits (map gt_area bs) (hit_indices lo hi (map gt_area bs))"
  defines "its \<equiv> map (\<lambda>i. (pos_region sg st fs (bs ! i), ls ! i, i, bs ! i)) ord"
  defines "fin \<equiv> foldl (paint_box st bl y x off)
                    (\<lambda>r c. 0, \<lambda>r c. - 1, \<lambda>r c. map4 (\<lambda>v. v + 1) (mem r c)) its"
  shows "\<forall>i \<in> set ord. i < length ls"
    and "grid_at L r c = fst (cell_of fin r c)"
    and "grid_at I r c = fst (snd (cell_of fin r c))"
    and "grid_at T r c = (if ord = [] then map4 ln (snd (snd (cell_of fin r c)))
                          else map4 ln (map4 (clamp (1 / 16) 16) (snd (snd (cell_of fin r c)))))"
    and "grid_h L = fst fs \<and> grid_w L = snd fs \<and> grid_h T = fst fs \<and> grid_w T = snd fs
         \<and> grid_h I = fst fs \<and> grid_w I = snd fs"
proof -
  let ?hits = "hit_indices lo hi (map gt_area bs)"
  have ord_nil: "ord = [] \<longleftrightarrow> ?hits = []"
    unfolding ord_def sort_hits_def by (metis length_sort length_0_conv)
  have main: "(\<forall>i \<in> set ord. i < length ls) \<and>
       grid_at L r c = fst (cell_of fin r c) \<and>
       grid_at I r c = fst (snd (cell_of fin r c)) \<and>
       grid_at T r c = (if ord = [] then map4 ln (snd (snd (cell_of fin r c)))
                          else map4 ln (map4 (clamp (1 / 16) 16) (snd (snd (cell_of fin r c))))) \<and>
       (grid_h L = fst fs \<and> grid_w L = snd fs \<and> grid_h T = fst fs \<and> grid_w T = snd fs
         \<and> grid_h I = fst fs \<and> grid_w I = snd fs)"
  proof (cases "?hits = []")
    case True
    with ord_nil have o: "ord = []" by simp
    from tl True have "L = mk_grid fs (\<lambda>r c. 0)" "I = mk_grid fs (\<lambda>r c. - 1)"
      "T = mk_grid fs (\<lambda>r c. map4 ln (map4 (\<lambda>v. v + 1) (mem r c)))"
      by (simp_all add: target_level_def Let_def)
    then show ?thesis
      by (simp add: o fin_def its_def mk_grid_def cell_of_def)
  next
    case False
    with ord_nil have o: "ord \<noteq> []" by simp
    from tl False obtain gl where
      gl: "index_select ls ord = Inr gl" and
      res: "(case foldl (paint_box st bl y x off)
                 (\<lambda>r c. 0, \<lambda>r c. - 1, \<lambda>r c. map4 (\<lambda>v. v + 1) (mem r c))
                 (zip (map (pos_region sg st fs) (map (\<lambda>i. bs ! i) ord))
                    (zip gl (zip ord (map (\<lambda>i. bs ! i) ord)))) of
              (labels1, gt_ids1, bbox_targets1) \<Rightarrow>
                Inr (mk_grid fs labels1,
                     mk_grid fs (\<lambda>r c. map4 ln (map4 (clamp (1 / 16) 16) (bbox_targets1 r c))),
                     mk_grid fs gt_ids1)) = (Inr (L, T, I) :: error + level_targets)"
      by (auto simp: target_level_def Let_def bindE_eq_Inr ord_def)
    from index_select_nth[OF gl] have gl_eq: "gl = map (\<lambda>i. ls ! i) ord"
      and inr: "\<forall>i \<in> set ord. i < length ls" by auto
    have items: "zip (map (pos_region sg st fs) (map (\<lambda>i. bs ! i) ord))
                    (zip gl (zip ord (map (\<lambda>i. bs ! i) ord))) = its"
      unfolding gl_eq its_def map_map comp_def by (rule zip_items)
    obtain l1 i1 t1 where fin_eq: "fin = (l1, i1, t1)" by (cases fin)
    from res have "L = mk_grid fs l1" "I = mk_grid fs i1"
      "T = mk_grid fs (\<lambda>r c. map4 ln (map4 (clamp (1 / 16) 16) (t1 r c)))"
      unfolding items fin_def[symmetric] fin_eq by simp_all
    then show ?thesis
      using inr o by (simp add: fin_eq mk_grid_def cell_of_def)
  qed
  from main show "\<forall>i \<in> set ord. i < length ls"
       "grid_at L r c = fst (cell_of fin r c)"
       "grid_at I r c = fst (snd (cell_of fin r c))"
       "grid_at T r c = (if ord = [] then map4 ln (snd (snd (cell_of fin r c)))
                          else map4 ln (map4 (clamp (1 / 16) 16) (snd (snd (cell_of fin r c)))))"
       "grid_h L = fst fs \<and> grid_w L = snd fs \<and> grid_h T = fst fs \<and> grid_w T = snd fs
         \<and> grid_h I = fst fs \<and> grid_w I = snd fs"
    by blast+
qed

lemma set_hit_indices:
  "i \<in> set (hit_indices lo hi (map gt_area bs)) \<longleftrightarrow> i < length bs \<and> level_hit lo hi (gt_area (bs ! i))"
  by (auto simp: hit_indices_def)

lemma set_sort_hits: "set (sort_hits areas hits) = set hits"
  by (simp add: sort_hits_def)

lemma target_level_cell_cases:
  assumes tl: "target_level sg off bs ls mem (bl, (lo, hi), st, fs, (y, x)) = Inr (L, T, I)"
  shows "(grid_at L r c = 0 \<and> grid_at I r c = - 1
          \<and> (\<forall>i \<in> set (hit_indices lo hi (map gt_area bs)).
                \<not> in_slice (pos_region sg st fs (bs ! i)) r c))
       \<or> (\<exists>i \<in> set (hit_indices lo hi (map gt_area bs)). i < length ls \<and> i < length bs
            \<and> in_slice (pos_region sg st fs (bs ! i)) r c
            \<and> grid_at L r c = ls ! i \<and> grid_at I r c = int i + int off
            \<and> grid_at T r c = map4 ln (map4 (clamp (1 / 16) 16)
                                   (side_distances st bl y x (bs ! i) r c)))"
proof -
  let ?ord = "sort_hits (map gt_area bs) (hit_indices lo hi (map gt_area bs))"
  let ?its = "map (\<lambda>i. (pos_region sg st fs (bs ! i), ls ! i, i, bs ! i)) ?ord"
  let ?init = "(\<lambda>r c. 0 :: int, \<lambda>r c. - 1 :: int, \<lambda>r c. map4 (\<lambda>v. v + 1) (mem r c))"
  let ?fin = "foldl (paint_box st bl y x off) ?init ?its"
  note tc = target_level_cell[OF tl]
  have so: "set ?ord = set (hit_indices lo hi (map gt_area bs))" by (rule set_sort_hits)
  from cell_of_foldl_cases[of st bl y x off ?init ?its r c]
  show ?thesis
  proof
    assume a: "cell_of ?fin r c = cell_of ?init r c \<and> (\<forall>it \<in> set ?its. \<not> in_slice (fst it) r c)"
    then have "grid_at L r c = 0" "grid_at I r c = - 1"
      using tc(2)[of r c] tc(3)[of r c] by (simp_all add: cell_of_def)
    moreover from a have "\<forall>i \<in> set ?ord. \<not> in_slice (pos_region sg st fs (bs ! i)) r c"
      by simp
    ultimately show ?thesis using so by blast
  next
    assume "\<exists>it \<in> set ?its. in_slice (fst it) r c
         \<and> cell_of ?fin r c = item_value st bl y x off it r c"
    then obtain i where i: "i \<in> set ?ord" "in_slice (pos_region sg st fs (bs ! i)) r c"
      and v: "cell_of ?fin r c
              = item_value st bl y x off (pos_region sg st fs (bs ! i), ls ! i, i, bs ! i) r c"
      by auto
    from i(1) have ne: "?ord \<noteq> []" by auto
    from i(1) so have ib: "i < length bs" by (simp add: set_hit_indices)
    from tc(1) i(1) have il: "i < length ls" by blast
    from v have "grid_at L r c = ls ! i" "grid_at I r c = int i + int off"
      "grid_at T r c = map4 ln (map4 (clamp (1 / 16) 16) (side_distances st bl y x (bs ! i) r c))"
      using tc(2)[of r c] tc(3)[of r c] tc(4)[of r c] ne by (simp_all add: item_value_def)
    with i so ib il show ?thesis by blast
  qed
qed

lemma target_loop_Inr:
  "ppdet_target_loop sg off bs ls mem n lvls (Ls, Ts, Is) = Inr (Ls', Ts', Is') \<Longrightarrow>
     \<exists>outs. length outs = length lvls
       \<and> (\<forall>j < length lvls. target_level sg off bs ls (mem (n + j)) (lvls ! j) = Inr (outs ! j))
       \<and> Ls' = Ls @ map fst outs \<and> Ts' = Ts @ map (\<lambda>t. fst (snd t)) outs
       \<and> Is' = Is @ map (\<lambda>t. snd (snd t)) outs"
proof (induction lvls arbitrary: n Ls Ts Is)
  case Nil
  then show ?case by simp
next
  case (Cons l lvls)
  from Cons.prems obtain L T I where
    tl: "target_level sg off bs ls (mem n) l = Inr (L, T, I)" and
    rest: "ppdet_target_loop sg off bs ls mem (Suc n) lvls (Ls @ [L], Ts @ [T], Is @ [I])
           = Inr (Ls', Ts', Is')"
    by (auto simp: bindE_eq_Inr)
  from Cons.IH[OF rest] obtain outs where outs: "length outs = length lvls"
    "\<forall>j < length lvls. target_level sg off bs ls (mem (Suc n + j)) (lvls ! j) = Inr (outs ! j)"
    "Ls' = (Ls @ [L]) @ map fst outs" "Ts' = (Ts @ [T]) @ map (\<lambda>t. fst (snd t)) outs"
    "Is' = (Is @ [I]) @ map (\<lambda>t. snd (snd t)) outs" by blast
  have "\<forall>j < length (l # lvls). target_level sg off bs ls (mem (n + j)) ((l # lvls) ! j)
          = Inr (((L, T, I) # outs) ! j)"
  proof (intro allI impI)
    fix j assume "j < length (l # lvls)"
    then show "target_level sg off bs ls (mem (n + j)) ((l # lvls) ! j) = Inr (((L, T, I) # outs) ! j)"
      using tl outs(2) by (cases j) auto
  qed
  with outs show ?case by (intro exI[of _ "(L, T, I) # outs"]) simp
qed

lemma target_single_level:
  assumes "ppdet_target_single h mem bs ls off fss pts = Inr (Ls, Ts, Is)"
  shows "length Ls = length (zip_target_levels h fss pts)"
    and "length Ts = length Ls" and "length Is = length Ls"
    and "lvl < length Ls \<Longrightarrow>
           target_level (sigma h) off bs ls (mem lvl) (zip_target_levels h fss pts ! lvl)
           = Inr (Ls ! lvl, Ts ! lvl, Is ! lvl)"
proof -
  from target_loop_Inr[OF assms[unfolded ppdet_target_single_def]] obtain outs where
    o: "length outs = length (zip_target_levels h fss pts)"
    "\<forall>j < length (zip_target_levels h fss pts).
        target_level (sigma h) off bs ls (mem (0 + j)) (zip_target_levels h fss pts ! j) = Inr (outs ! j)"
    "Ls = [] @ map fst outs" "Ts = [] @ map (\<lambda>t. fst (snd t)) outs"
    "Is = [] @ map (\<lambda>t. snd (snd t)) outs" by blast
  from o show "length Ls = length (zip_target_levels h fss pts)" "length Ts = length Ls"
    "length Is = length Ls" by simp_all
  assume "lvl < length Ls"
  with o show "target_level (sigma h) off bs ls (mem lvl) (zip_target_levels h fss pts ! lvl)
           = Inr (Ls ! lvl, Ts ! lvl, Is ! lvl)" by simp
qed

text \<open>
  Claim C6. When every ground-truth label is a foreground class, at least 1, each cell
  of each level that \<^verbatim>\<open>ppdet_target_single\<close> returns has label 0 exactly when its
  instance id is \<open>-1\<close>.
\<close>

theorem label_zero_iff_no_instance:
  assumes "ppdet_target_single h mem gt_bboxes_raw gt_labels_raw label_size_list_raw
             featmap_size_list point_list = Inr (label_list, bbox_target_list, ids_list)"
    and "\<forall>label \<in> set gt_labels_raw. 1 \<le> label"
    and "lvl < length label_list"
  shows "length ids_list = length label_list
         \<and> (grid_at (label_list ! lvl) r c = 0 \<longleftrightarrow> grid_at (ids_list ! lvl) r c = - 1)"
proof -
  note s = target_single_level[OF assms(1)]
  obtain bl lo hi st fs y x where
    l: "zip_target_levels h featmap_size_list point_list ! lvl = (bl, (lo, hi), st, fs, (y, x))"
    by (metis prod.collapse)
  from s(4)[OF assms(3)] have tl: "target_level (sigma h) label_size_list_raw gt_bboxes_raw
      gt_labels_raw (mem lvl) (bl, (lo, hi), st, fs, (y, x))
      = Inr (label_list ! lvl, bbox_target_list ! lvl, ids_list ! lvl)"
    by (simp add: l)
  from target_level_cell_cases[OF tl, of r c]
  have "grid_at (label_list ! lvl) r c = 0 \<longleftrightarrow> grid_at (ids_list ! lvl) r c = - 1"
  proof
    assume "grid_at (label_list ! lvl) r c = 0 \<and> grid_at (ids_list ! lvl) r c = - 1
          \<and> (\<forall>i \<in> set (hit_indices lo hi (map gt_area gt_bboxes_raw)).
                \<not> in_slice (pos_region (sigma h) st fs (gt_bboxes_raw ! i)) r c)"
    then show ?thesis by simp
  next
    assume "\<exists>i \<in> set (hit_indices lo hi (map gt_area gt_bboxes_raw)).
            i < length gt_labels_raw \<and> i < length gt_bboxes_raw
            \<and> in_slice (pos_region (sigma h) st fs (gt_bboxes_raw ! i)) r c
            \<and> grid_at (label_list ! lvl) r c = gt_labels_raw ! i
            \<and> grid_at (ids_list ! lvl) r c = int i + int label_size_list_raw
            \<and> grid_at (bbox_target_list ! lvl) r c = map4 ln (map4 (clamp (1 / 16) 16)
                                   (side_distances st bl y x (gt_bboxes_raw ! i) r c))"
    then obtain i where i: "i < length gt_labels_raw"
      "grid_at (label_list ! lvl) r c = gt_labels_raw ! i"
      "grid_at (ids_list ! lvl) r c = int i + int label_size_list_raw" by blast
    from i(1) assms(2) have "1 \<le> gt_labels_raw ! i" by simp
    with i show ?thesis by simp
  qed
  with s(3) show ?thesis by simp
qed




lemma target_level_unpainted:
  assumes tl: "target_level sg off bs ls mem (bl, (lo, hi), st, fs, (y, x)) = Inr (L, T, I)"
    and none: "\<forall>k \<in> set (hit_indices lo hi (map gt_area bs)).
                 \<not> in_slice (pos_region sg st fs (bs ! k)) r c"
  shows "grid_at L r c = 0 \<and> grid_at I r c = - 1
         \<and> grid_at T r c = (if hit_indices lo hi (map gt_area bs) = []
                             then map4 ln (map4 (\<lambda>v. v + 1) (mem r c))
                             else map4 ln (map4 (clamp (1 / 16) 16) (map4 (\<lambda>v. v + 1) (mem r c))))"
proof -
  let ?hits = "hit_indices lo hi (map gt_area bs)"
  let ?ord = "sort_hits (map gt_area bs) ?hits"
  let ?item = "\<lambda>i. (pos_region sg st fs (bs ! i), ls ! i, i, bs ! i)"
  let ?init = "(\<lambda>r c. 0 :: int, \<lambda>r c. - 1 :: int, \<lambda>r c. map4 (\<lambda>v. v + 1) (mem r c))"
  note tc = target_level_cell[OF tl]
  have so: "set ?ord = set ?hits" by (rule set_sort_hits)
  have nil: "?ord = [] \<longleftrightarrow> ?hits = []" using so by (metis set_empty)
  have "\<forall>it \<in> set (map ?item ?ord). \<not> in_slice (fst it) r c"
    using none so by auto
  then have "cell_of (foldl (paint_box st bl y x off) ?init (map ?item ?ord)) r c = cell_of ?init r c"
    by (rule cell_of_foldl_none)
  also have "cell_of ?init r c = (0, - 1, map4 (\<lambda>v. v + 1) (mem r c))"
    by (simp add: cell_of_def)
  finally have v: "cell_of (foldl (paint_box st bl y x off) ?init (map ?item ?ord)) r c
      = (0, - 1, map4 (\<lambda>v. v + 1) (mem r c))" .
  have "grid_at L r c = 0" "grid_at I r c = - 1"
    using tc(2)[of r c] tc(3)[of r c] unfolding v by simp_all
  moreover have "grid_at T r c = (if ?ord = [] then map4 ln (map4 (\<lambda>v. v + 1) (mem r c))
       else map4 ln (map4 (clamp (1 / 16) 16) (map4 (\<lambda>v. v + 1) (mem r c))))"
    using tc(4)[of r c] unfolding v by simp
  ultimately show ?thesis unfolding nil by simp
qed

lemma target_level_total:
  assumes "length ls = length bs"
  shows "\<exists>L T I. target_level sg off bs ls mem l = Inr (L, T, I)"
proof -
  obtain bl lo hi st fs y x where l: "l = (bl, (lo, hi), st, fs, (y, x))"
    by (metis prod.collapse)
  let ?ord = "sort_hits (map gt_area bs) (hit_indices lo hi (map gt_area bs))"
  have "\<forall>i \<in> set ?ord. i < length ls"
    using assms by (simp add: set_sort_hits set_hit_indices)
  then have "index_select ls ?ord = Inr (map (\<lambda>i. ls ! i) ?ord)"
    by (simp add: index_select_def)
  then show ?thesis
    by (simp add: l target_level_def Let_def split_def)
qed

lemma target_loop_total:
  assumes "length ls = length bs"
  shows "\<exists>Ls Ts Is. ppdet_target_loop sg off bs ls mem n lvls acc = Inr (Ls, Ts, Is)"
proof (induction lvls arbitrary: n acc)
  case Nil
  show ?case by (cases acc) auto
next
  case (Cons l lvls)
  obtain A B C where acc: "acc = (A, B, C)" by (cases acc)
  from target_level_total[OF assms] obtain L T I where
    "target_level sg off bs ls (mem n) l = Inr (L, T, I)" by blast
  with Cons.IH[of "Suc n" "(A @ [L], B @ [T], C @ [I])"] show ?case
    by (simp add: acc)
qed

lemma target_single_total:
  assumes "length ls = length bs"
  shows "\<exists>Ls Ts Is. ppdet_target_single h mem bs ls off fss pts = Inr (Ls, Ts, Is)"
  unfolding ppdet_target_single_def by (rule target_loop_total[OF assms])

lemma observers_Inr:
  assumes "res = Inr (Ls, Ts, Is)" "lvl < length Ls" "length Ts = length Ls" "length Is = length Ls"
  shows "label_at res lvl r c = Some (grid_at (Ls ! lvl) r c)"
    and "id_at res lvl r c = Some (grid_at (Is ! lvl) r c)"
    and "target_at res lvl r c = Some (grid_at (Ts ! lvl) r c)"
  using assms by (simp_all add: label_at_def id_at_def target_at_def)


lemma single_unpainted:
  assumes len: "length ls = length bs"
    and lvl: "lvl < length (zip_target_levels h fss pts)"
    and l: "zip_target_levels h fss pts ! lvl = (bl, (lo, hi), st, fs, (y, x))"
    and none: "\<forall>k \<in> set (hit_indices lo hi (map gt_area bs)).
                 \<not> in_slice (pos_region (sigma h) st fs (bs ! k)) r c"
  shows "label_at (ppdet_target_single h mem bs ls off fss pts) lvl r c = Some 0"
    and "id_at (ppdet_target_single h mem bs ls off fss pts) lvl r c = Some (- 1)"
    and "target_at (ppdet_target_single h mem bs ls off fss pts) lvl r c
         = Some (if hit_indices lo hi (map gt_area bs) = []
                 then map4 ln (map4 (\<lambda>v. v + 1) (mem lvl r c))
                 else map4 ln (map4 (clamp (1 / 16) 16) (map4 (\<lambda>v. v + 1) (mem lvl r c))))"
proof -
  from target_single_total[OF len] obtain Ls Ts Is where
    res: "ppdet_target_single h mem bs ls off fss pts = Inr (Ls, Ts, Is)" by blast
  note s = target_single_level[OF res]
  from lvl s(1) have lv: "lvl < length Ls" by simp
  from s(4)[OF lv] have tl: "target_level (sigma h) off bs ls (mem lvl) (bl, (lo, hi), st, fs, (y, x))
      = Inr (Ls ! lvl, Ts ! lvl, Is ! lvl)" by (simp add: l)
  note t = target_level_unpainted[OF tl none]
  note o = observers_Inr[OF res lv s(2,3)]
  from t o show "label_at (ppdet_target_single h mem bs ls off fss pts) lvl r c = Some 0"
    "id_at (ppdet_target_single h mem bs ls off fss pts) lvl r c = Some (- 1)"
    "target_at (ppdet_target_single h mem bs ls off fss pts) lvl r c
         = Some (if hit_indices lo hi (map gt_area bs) = []
                 then map4 ln (map4 (\<lambda>v. v + 1) (mem lvl r c))
                 else map4 ln (map4 (clamp (1 / 16) 16) (map4 (\<lambda>v. v + 1) (mem lvl r c))))"
    by simp_all
qed

lemma sqrt_1024: "sqrt 1024 = 32"
  by (rule real_sqrt_unique) simp_all

lemma sqrt_576: "sqrt 576 = 24"
  by (rule real_sqrt_unique) simp_all

lemma example_areas:
  "gt_area box_a = Some 32" "gt_area box_b = Some 24" "gt_area box_c = Some 16"
  by (simp_all add: gt_area_def box_a_def box_b_def box_c_def sqrt_1024 sqrt_576 sqrt_256)

lemma example_regions:
  "pos_region sigma_0_4 8 (4, 4) box_a = (1, 1, 2, 2)"
  "pos_region sigma_0_4 8 (4, 4) box_b = (1, 1, 2, 2)"
  "pos_region sigma_0_4 8 (4, 4) box_c = (1, 1, 1, 1)"
proof -
  have "pos_region sigma_0_4 8 (4, 4) (0, 0, 32, 32) =
          (clamp 0 (int 4 - 1) 1, clamp 0 (int 4 - 1) 1,
           clamp 0 (int 4 - 1) 2, clamp 0 (int 4 - 1) 2)"
    by (rule pos_region_staged
          [where s="8" and xa="0" and ya="0" and xb="4" and yb="4" and hw="2" and hh="2" and lo="5033165 / 8388608" and hi="11744051 / 8388608"])
       (simp_all add: sigma_0_4_value float_eval)
  then show "pos_region sigma_0_4 8 (4, 4) box_a = (1, 1, 2, 2)"
    by (simp add: box_a_def clamp_def)
  have "pos_region sigma_0_4 8 (4, 4) (4, 4, 28, 28) =
          (clamp 0 (int 4 - 1) 1, clamp 0 (int 4 - 1) 1,
           clamp 0 (int 4 - 1) 2, clamp 0 (int 4 - 1) 2)"
    by (rule pos_region_staged
          [where s="8" and xa="1 / 2" and ya="1 / 2" and xb="7 / 2" and yb="7 / 2" and hw="3 / 2" and hh="3 / 2" and lo="5033165 / 8388608" and hi="11744051 / 8388608"])
       (simp_all add: sigma_0_4_value float_eval)
  then show "pos_region sigma_0_4 8 (4, 4) box_b = (1, 1, 2, 2)"
    by (simp add: box_b_def clamp_def)
  have "pos_region sigma_0_4 8 (4, 4) (4, 4, 20, 20) =
          (clamp 0 (int 4 - 1) 1, clamp 0 (int 4 - 1) 1,
           clamp 0 (int 4 - 1) 1, clamp 0 (int 4 - 1) 1)"
    by (rule pos_region_staged
          [where s="8" and xa="1 / 2" and ya="1 / 2" and xb="5 / 2" and yb="5 / 2" and hw="1" and hh="1" and lo="5033165 / 8388608" and hi="11744051 / 8388608"])
       (simp_all add: sigma_0_4_value float_eval)
  then show "pos_region sigma_0_4 8 (4, 4) box_c = (1, 1, 1, 1)"
    by (simp add: box_c_def clamp_def)
qed

lemma example_target_levels:
  "zip_target_levels example_head [(4, 4)] (get_points [(4, 4)])
   = [(16, (8, 32), 8, (4, 4), (\<lambda>r c. real r + 1 / 2, \<lambda>r c. real c + 1 / 2))]"
  by (simp add: zip_target_levels_def example_head_def get_points_def)



lemma example_hits1:
  "hit_indices 8 32 (map gt_area [box_c]) = [0]"
  by (simp add: hit_indices_def example_areas level_hit_def upt_rec)




theorem label_zero_iff_no_instance_witness:
  "label_at (ppdet_target_single example_head mem5 [box_c] [1] 0 [(4, 4)] (get_points [(4, 4)]))
     0 0 0 = Some 0
   \<and> id_at (ppdet_target_single example_head mem5 [box_c] [1] 0 [(4, 4)] (get_points [(4, 4)]))
     0 0 0 = Some (- 1)"
proof -
  let ?res = "ppdet_target_single example_head mem5 [box_c] [1] 0 [(4, 4)] (get_points [(4, 4)])"
  have len: "length [1 :: int] = length [box_c]" by simp
  from target_single_total[OF len] obtain Ls Ts Is where res: "?res = Inr (Ls, Ts, Is)"
    by blast
  note s = target_single_level[OF res]
  from s(1) have lv: "0 < length Ls" by (simp add: example_target_levels)
  have lab: "\<forall>label \<in> set [1 :: int]. 1 \<le> label" by simp
  note t = label_zero_iff_no_instance[OF res lab lv, of 0 0]
  have lvl: "0 < length (zip_target_levels example_head [(4, 4)] (get_points [(4, 4)]))"
    by (simp add: example_target_levels)
  have l: "zip_target_levels example_head [(4, 4)] (get_points [(4, 4)]) ! 0
      = (16, (8, 32), 8, (4, 4), (\<lambda>r c. real r + 1 / 2, \<lambda>r c. real c + 1 / 2))"
    by (simp add: example_target_levels)
  have sg: "sigma example_head = sigma_0_4" by (simp add: example_head_def)
  have none: "\<forall>k \<in> set (hit_indices 8 32 (map gt_area [box_c])).
                 \<not> in_slice (pos_region (sigma example_head) 8 (4, 4) ([box_c] ! k)) 0 0"
    unfolding example_hits1 by (simp add: sg example_regions in_slice_def)
  have "label_at ?res 0 0 0 = Some 0"
    by (rule single_unpainted(1)[OF len lvl l none])
  moreover from this have "grid_at (Ls ! 0) 0 0 = 0"
    using observers_Inr(1)[OF res lv s(2,3)] by simp
  with t have "grid_at (Is ! 0) 0 0 = - 1" by simp
  then have "id_at ?res 0 0 0 = Some (- 1)"
    using observers_Inr(2)[OF res lv s(2,3)] by simp
  ultimately show ?thesis by simp
qed




lemma exp_ln_clamp: "map4 exp (map4 ln (map4 (clamp (1 / 16) 16) v)) = map4 (clamp (1 / 16) 16) v"
proof -
  have "exp (ln (clamp (1 / 16) 16 a)) = clamp (1 / 16) 16 a" for a :: real
  proof -
    have "(1 / 16 :: real) \<le> clamp (1 / 16) 16 a"
      using clamp_bounds[of "1 / 16 :: real" 16 a] by simp
    then have "0 < clamp (1 / 16) 16 a" by linarith
    then show ?thesis by simp
  qed
  then show ?thesis by (cases v) (simp add: map4_def)
qed

text \<open>The part of claim C5 that holds: at a cell that some selected box covers, the
  exponential of the stored target is the clamped side distance of the cell to one of the
  boxes covering it, the one whose instance id the cell holds.\<close>

lemma painted_round_trip:
  assumes "ppdet_target_single h mem gt_bboxes_raw gt_labels_raw label_size_list_raw
             featmap_size_list point_list = Inr (label_list, bbox_target_list, ids_list)"
    and "lvl < length label_list"
    and "zip_target_levels h featmap_size_list point_list ! lvl
           = (base_len, (lower_bound, upper_bound), stride, featmap_size, (y, x))"
    and "i \<in> set (hit_indices lower_bound upper_bound (map gt_area gt_bboxes_raw))"
    and "in_slice (pos_region (sigma h) stride featmap_size (gt_bboxes_raw ! i)) r c"
  shows "\<exists>j \<in> set (hit_indices lower_bound upper_bound (map gt_area gt_bboxes_raw)).
           in_slice (pos_region (sigma h) stride featmap_size (gt_bboxes_raw ! j)) r c
           \<and> grid_at (ids_list ! lvl) r c = int j + int label_size_list_raw
           \<and> map4 exp (grid_at (bbox_target_list ! lvl) r c)
               = map4 (clamp (1 / 16) 16) (side_distances stride base_len y x (gt_bboxes_raw ! j) r c)"
proof -
  note s = target_single_level[OF assms(1)]
  from s(4)[OF assms(2)] have tl: "target_level (sigma h) label_size_list_raw gt_bboxes_raw
      gt_labels_raw (mem lvl) (base_len, (lower_bound, upper_bound), stride, featmap_size, (y, x))
      = Inr (label_list ! lvl, bbox_target_list ! lvl, ids_list ! lvl)"
    by (simp add: assms(3))
  from target_level_cell_cases[OF tl, of r c] assms(4,5)
  obtain j where j: "j \<in> set (hit_indices lower_bound upper_bound (map gt_area gt_bboxes_raw))"
    "in_slice (pos_region (sigma h) stride featmap_size (gt_bboxes_raw ! j)) r c"
    "grid_at (ids_list ! lvl) r c = int j + int label_size_list_raw"
    "grid_at (bbox_target_list ! lvl) r c = map4 ln (map4 (clamp (1 / 16) 16)
        (side_distances stride base_len y x (gt_bboxes_raw ! j) r c))"
    by blast
  from j(4) have "map4 exp (grid_at (bbox_target_list ! lvl) r c)
      = map4 (clamp (1 / 16) 16) (side_distances stride base_len y x (gt_bboxes_raw ! j) r c)"
    by (simp add: exp_ln_clamp)
  with j(1-3) show ?thesis by blast
qed

text \<open>
  Claim C5 at its failing input. \<^verbatim>\<open>gt_bboxes_raw.new(H, W, 4) + 1\<close> is not a tensor of
  ones: with memory that holds 5, a cell that no box covers stores \<open>ln 6\<close> in each
  channel, on a level with a box as on a level without, and the exponential gives 6,
  not 1.
\<close>

theorem uncovered_target_is_memory:
  "map_option (map4 exp)
     (target_at (ppdet_target_single example_head mem5 [box_c] [1] 0 [(4, 4)]
                   (get_points [(4, 4)])) 0 0 0) = Some (6, 6, 6, 6)
   \<and> map_option (map4 exp)
     (target_at (ppdet_target_single example_head mem5 [] [] 0 [(4, 4)]
                   (get_points [(4, 4)])) 0 0 0) = Some (6, 6, 6, 6)"
proof -
  have lvl: "0 < length (zip_target_levels example_head [(4, 4)] (get_points [(4, 4)]))"
    by (simp add: example_target_levels)
  have l: "zip_target_levels example_head [(4, 4)] (get_points [(4, 4)]) ! 0
      = (16, (8, 32), 8, (4, 4), (\<lambda>r c. real r + 1 / 2, \<lambda>r c. real c + 1 / 2))"
    by (simp add: example_target_levels)
  have sg: "sigma example_head = sigma_0_4" by (simp add: example_head_def)
  have len1: "length [1 :: int] = length [box_c]" by simp
  have none1: "\<forall>k \<in> set (hit_indices 8 32 (map gt_area [box_c])).
                 \<not> in_slice (pos_region (sigma example_head) 8 (4, 4) ([box_c] ! k)) 0 0"
    unfolding example_hits1 by (simp add: sg example_regions in_slice_def)
  have len0: "length ([] :: int list) = length ([] :: bbox list)" by simp
  have h0: "hit_indices 8 32 (map gt_area []) = []" by (simp add: hit_indices_def)
  have none0: "\<forall>k \<in> set (hit_indices 8 32 (map gt_area [])).
                 \<not> in_slice (pos_region (sigma example_head) 8 (4, 4) ([] ! k)) 0 0"
    unfolding h0 by simp
  have v: "map4 (\<lambda>v. v + 1) (mem5 0 0 0) = (6, 6, 6, 6)"
    by (simp add: map4_def mem5_def)
  have e1: "map4 exp (map4 ln (map4 (clamp (1 / 16) 16) (6, 6, 6, 6))) = (6, 6, 6, 6)"
    unfolding exp_ln_clamp by (simp add: map4_def clamp_def)
  have e0: "map4 exp (map4 ln (6, 6, 6, 6)) = (6, 6, 6, 6)"
    by (simp add: map4_def)
  have "target_at (ppdet_target_single example_head mem5 [box_c] [1] 0 [(4, 4)]
                   (get_points [(4, 4)])) 0 0 0
        = Some (map4 ln (map4 (clamp (1 / 16) 16) (6, 6, 6, 6)))"
    using single_unpainted(3)[OF len1 lvl l none1, of mem5 0] unfolding example_hits1 v by simp
  moreover have "target_at (ppdet_target_single example_head mem5 [] [] 0 [(4, 4)]
                   (get_points [(4, 4)])) 0 0 0
        = Some (map4 ln (6, 6, 6, 6))"
    using single_unpainted(3)[OF len0 lvl l none0, of mem5 0] unfolding h0 v by simp
  ultimately show ?thesis by (simp add: e1 e0)
qed

section \<open>Properties of the loss composer\<close>

lemma nonzero_map: "nonzero (map P xs) = filter (\<lambda>i. P (xs ! i)) [0..<length xs]"
  unfolding nonzero_def by (rule filter_cong) auto

lemma index_select_in_range:
  "\<forall>i \<in> set inds. i < length xs \<Longrightarrow> index_select xs inds = Inr (map (\<lambda>i. xs ! i) inds)"
  by (simp add: index_select_def)

lemma agg_loop_Inr:
  assumes "agg_loop labs ids scs gs (L, S, n) = Inr (L', S', n')"
    and "length labs = length ids"
  shows "L' = rev (map snd (filter (\<lambda>(i, cl). filter (\<lambda>j. ids ! j = int i) [0..<length ids] \<noteq> []) gs)) @ L
    \<and> S' = rev (map (\<lambda>(i, cl). mean_dim0 (map (\<lambda>j. scs ! j)
                    (filter (\<lambda>j. ids ! j = int i) [0..<length ids])))
                (filter (\<lambda>(i, cl). filter (\<lambda>j. ids ! j = int i) [0..<length ids] \<noteq> []) gs)) @ S
    \<and> n' = n + length (filter (\<lambda>(i, cl). filter (\<lambda>j. ids ! j = int i) [0..<length ids] \<noteq> []) gs)"
  using assms(1)
proof (induction gs arbitrary: L S n)
  case Nil
  then show ?case by simp
next
  case (Cons g gs)
  obtain i cl where g: "g = (i, cl)" by (cases g)
  let ?inds = "filter (\<lambda>j. ids ! j = int i) [0..<length ids]"
  have nz: "nonzero (map (\<lambda>v. v = int i) ids) = ?inds" by (rule nonzero_map)
  have sel: "index_select labs ?inds = Inr (map (\<lambda>j. labs ! j) ?inds)"
    by (rule index_select_in_range) (simp add: assms(2))
  have step: "agg_loop labs ids scs (g # gs) (L, S, n) =
      (if ?inds \<noteq> []
       then bindE (index_select scs ?inds) (\<lambda>rows.
              agg_loop labs ids scs gs (cl # L, mean_dim0 rows # S, n + 1))
       else agg_loop labs ids scs gs (L, S, n))" for L S n
    by (simp add: g nz sel Let_def)
  show ?case
  proof (cases "?inds = []")
    case True
    with Cons.prems have "agg_loop labs ids scs gs (L, S, n) = Inr (L', S', n')"
      unfolding step by simp
    from Cons.IH[OF this] True show ?thesis by (simp add: g)
  next
    case False
    with Cons.prems obtain rows where rows: "index_select scs ?inds = Inr rows"
      and rest: "agg_loop labs ids scs gs (cl # L, mean_dim0 rows # S, n + 1) = Inr (L', S', n')"
      unfolding step by (auto simp: bindE_eq_Inr)
    from index_select_nth[OF rows] have "rows = map (\<lambda>j. scs ! j) ?inds" by simp
    with Cons.IH[OF rest] False show ?thesis by (simp add: g)
  qed
qed

lemma zip_upt_nth: "zip [0..<length xs] xs = map (\<lambda>i. (i, xs ! i)) [0..<length xs]"
  by (rule nth_equalityI) simp_all

lemma loss_cls_samples_Inr:
  assumes "loss_cls_samples fb = Inr (S, L, a)" "length (fl_labels fb) = length (fl_ids fb)"
  shows "S = rev (map (\<lambda>g. mean_dim0 (map (\<lambda>j. fl_cls_scores fb ! j) (instance_cells fb g)))
                  (hit_instances fb))
             @ map (\<lambda>i. fl_cls_scores fb ! i) (negative_cells fb)"
    and "L = rev (map (\<lambda>g. fl_all_gt_labels fb ! g) (hit_instances fb))
             @ map (\<lambda>i. fl_labels fb ! i) (negative_cells fb)"
    and "a = length (hit_instances fb) + fl_num_imgs fb"
proof -
  let ?negs = "nonzero (map (\<lambda>l. l \<le> 0) (fl_labels fb))"
  have negs: "?negs = negative_cells fb"
    by (simp add: nonzero_map negative_cells_def)
  from assms(1) obtain L0 S0 L1 S1 n1 where
    l0: "index_select (fl_labels fb) (negative_cells fb) = Inr L0" and
    s0: "index_select (fl_cls_scores fb) (negative_cells fb) = Inr S0" and
    ag: "agg_loop (fl_labels fb) (fl_ids fb) (fl_cls_scores fb)
           (zip [0..<length (fl_all_gt_labels fb)] (fl_all_gt_labels fb)) (L0, S0, 0)
         = Inr (L1, S1, n1)" and
    res: "S = S1" "L = L1" "a = n1 + fl_num_imgs fb"
    unfolding loss_cls_samples_def Let_def negs by (auto simp: bindE_eq_Inr)
  let ?P = "\<lambda>i. filter (\<lambda>j. fl_ids fb ! j = int i) [0..<length (fl_ids fb)] \<noteq> []"
  let ?gs = "zip [0..<length (fl_all_gt_labels fb)] (fl_all_gt_labels fb)"
  have flt: "filter (\<lambda>(i, cl). ?P i) ?gs
      = map (\<lambda>i. (i, fl_all_gt_labels fb ! i)) (hit_instances fb)"
    unfolding zip_upt_nth hit_instances_def instance_cells_def
    by (simp add: filter_map comp_def)
  note a = agg_loop_Inr[OF ag assms(2), unfolded flt]
  from index_select_nth[OF l0] index_select_nth[OF s0]
  have "L0 = map (\<lambda>i. fl_labels fb ! i) (negative_cells fb)"
    "S0 = map (\<lambda>i. fl_cls_scores fb ! i) (negative_cells fb)" by simp_all
  with a res show
    "S = rev (map (\<lambda>g. mean_dim0 (map (\<lambda>j. fl_cls_scores fb ! j) (instance_cells fb g)))
                  (hit_instances fb))
             @ map (\<lambda>i. fl_cls_scores fb ! i) (negative_cells fb)"
    "L = rev (map (\<lambda>g. fl_all_gt_labels fb ! g) (hit_instances fb))
             @ map (\<lambda>i. fl_labels fb ! i) (negative_cells fb)"
    "a = length (hit_instances fb) + fl_num_imgs fb"
    by (simp_all add: comp_def instance_cells_def)
qed

lemma loss_cls_samples_mset:
  assumes "loss_cls_samples fb = Inr (S, L, a)" "length (fl_labels fb) = length (fl_ids fb)"
    and "\<forall>l \<in> set (fl_labels fb). 0 \<le> l"
  shows "mset (zip S L) =
           image_mset (\<lambda>i. (fl_cls_scores fb ! i, 0)) (mset (negative_cells fb))
         + image_mset (\<lambda>g. (mean_dim0 (map (\<lambda>j. fl_cls_scores fb ! j) (instance_cells fb g)),
                             fl_all_gt_labels fb ! g)) (mset (hit_instances fb))"
    and "length S = length L"
proof -
  note c = loss_cls_samples_Inr[OF assms(1,2)]
  let ?f = "\<lambda>g. mean_dim0 (map (\<lambda>j. fl_cls_scores fb ! j) (instance_cells fb g))"
  let ?g = "\<lambda>g. fl_all_gt_labels fb ! g"
  have z: "zip S L = rev (map (\<lambda>g. (?f g, ?g g)) (hit_instances fb))
                    @ map (\<lambda>i. (fl_cls_scores fb ! i, fl_labels fb ! i)) (negative_cells fb)"
    unfolding c(1) c(2) by (simp add: zip_rev zip_map_map rev_map zip_same_conv_map comp_def)
  have zero: "fl_labels fb ! i = 0" if "i \<in> set (negative_cells fb)" for i
  proof -
    from that have "i < length (fl_labels fb)" "fl_labels fb ! i \<le> 0"
      by (simp_all add: negative_cells_def)
    with assms(3) show ?thesis by (metis nth_mem order_antisym)
  qed
  have "map (\<lambda>i. (fl_cls_scores fb ! i, fl_labels fb ! i)) (negative_cells fb)
      = map (\<lambda>i. (fl_cls_scores fb ! i, 0)) (negative_cells fb)"
    by (rule map_cong) (simp_all add: zero)
  with z show "mset (zip S L) =
           image_mset (\<lambda>i. (fl_cls_scores fb ! i, 0)) (mset (negative_cells fb))
         + image_mset (\<lambda>g. (?f g, ?g g)) (mset (hit_instances fb))"
    by (simp add: mset_map[symmetric] del: mset_map)
  show "length S = length L" unfolding c(1) c(2) by simp
qed

lemma sequenceE_Inr:
  "sequenceE ms = Inr vs \<Longrightarrow> ms = map Inr vs"
proof (induction ms arbitrary: vs)
  case Nil
  then show ?case by simp
next
  case (Cons m ms)
  then obtain v vs' where "m = Inr v" "sequenceE ms = Inr vs'" "vs = v # vs'"
    by (auto simp: bindE_eq_Inr)
  with Cons.IH[of vs'] show ?case by simp
qed

lemma sequenceE_map_Inr: "sequenceE (map Inr vs) = Inr vs"
  by (induction vs) simp_all

lemma cat_Inr: "cat ts = Inr v \<longleftrightarrow> ts \<noteq> [] \<and> v = concat ts"
  by (auto simp: cat_def)

lemma zip_star_uniform:
  assumes "xss \<noteq> []" "\<forall>xs \<in> set xss. length xs = n"
  shows "zip_star xss = map (\<lambda>j. map (\<lambda>xs. xs ! j) xss) [0..<n]"
proof -
  from assms have "length ` set xss = {n}" by (cases xss) auto
  then have "Min (set (map length xss)) = n" by simp
  with assms(1) show ?thesis by (simp add: zip_star_def)
qed

lemma flatten_levels_Inr:
  assumes "flatten_levels f per_image = Inr xs"
  shows "xs = concat (map (\<lambda>level. concat (map f level)) (zip_star per_image))"
    and "zip_star per_image \<noteq> []"
proof -
  from assms obtain vs where
    sq: "sequenceE (map (\<lambda>level. cat (map f level)) (zip_star per_image)) = Inr vs"
    and c: "cat vs = Inr xs"
    by (auto simp: flatten_levels_def bindE_eq_Inr)
  from sequenceE_Inr[OF sq] have m: "map (\<lambda>level. cat (map f level)) (zip_star per_image) = map Inr vs" .
  have "vs = map (\<lambda>level. concat (map f level)) (zip_star per_image)"
  proof (rule nth_equalityI)
    from m show len: "length vs = length (map (\<lambda>level. concat (map f level)) (zip_star per_image))"
      by (metis length_map)
    fix i assume i: "i < length vs"
    with len have i': "i < length (zip_star per_image)" by simp
    from m have "map (\<lambda>level. cat (map f level)) (zip_star per_image) ! i = map Inr vs ! i" by simp
    with i i' have "cat (map f (zip_star per_image ! i)) = Inr (vs ! i)" by simp
    then have "vs ! i = concat (map f (zip_star per_image ! i))" by (simp add: cat_Inr)
    with i' show "vs ! i = map (\<lambda>level. concat (map f level)) (zip_star per_image) ! i" by simp
  qed
  with c show "xs = concat (map (\<lambda>level. concat (map f level)) (zip_star per_image))"
    "zip_star per_image \<noteq> []"
    by (auto simp: cat_Inr)
qed

lemma target_images_Inr:
  "target_images h mem n imgs fss pts = Inr results \<Longrightarrow>
     length results = length imgs
     \<and> (\<forall>k < length imgs. ppdet_target_single h (mem (n + k)) (fst (imgs ! k))
            (fst (snd (imgs ! k))) (snd (snd (imgs ! k))) fss pts = Inr (results ! k))"
proof (induction imgs arbitrary: n results)
  case Nil
  then show ?case by simp
next
  case (Cons im imgs)
  obtain bs ls off where im: "im = (bs, ls, off)" by (cases im)
  from Cons.prems obtain res ress where
    r: "ppdet_target_single h (mem n) bs ls off fss pts = Inr res" and
    rs: "target_images h mem (Suc n) imgs fss pts = Inr ress" and
    e: "results = res # ress"
    by (auto simp: im bindE_eq_Inr)
  from Cons.IH[OF rs] have IH: "length ress = length imgs"
    "\<forall>k < length imgs. ppdet_target_single h (mem (Suc n + k)) (fst (imgs ! k))
            (fst (snd (imgs ! k))) (snd (snd (imgs ! k))) fss pts = Inr (ress ! k)" by auto
  have "ppdet_target_single h (mem (n + k)) (fst ((im # imgs) ! k))
            (fst (snd ((im # imgs) ! k))) (snd (snd ((im # imgs) ! k))) fss pts
          = Inr (results ! k)" if "k < length (im # imgs)" for k
    using that r IH(2) by (cases k) (auto simp: im e)
  with IH(1) e show ?case by simp
qed

lemma cell_rel_mono: "cell_rel A l i \<Longrightarrow> A \<subseteq> B \<Longrightarrow> cell_rel B l i"
  by (auto simp: cell_rel_def)

lemma target_level_rel:
  assumes "target_level sg off bs ls mem l = Inr (L, T, I)"
  shows "list_all2 (cell_rel (set ls)) (flatten_grid L) (flatten_grid I)"
proof -
  obtain bl lo hi st fs y x where l: "l = (bl, (lo, hi), st, fs, (y, x))"
    by (metis prod.collapse)
  note tl = assms[unfolded l]
  from target_level_cell(5)[OF tl] have shape: "grid_h I = grid_h L" "grid_w I = grid_w L"
    by simp_all
  have "cell_rel (set ls) (grid_at L r c) (grid_at I r c)" for r c
    using target_level_cell_cases[OF tl, of r c] by (auto simp: cell_rel_def)
  then show ?thesis
    unfolding flatten_grid_def shape
    by (simp add: list_all2_map1 list_all2_map2 list_all2_same split_def)
qed

lemma list_all2_concat_map:
  assumes "\<forall>x \<in> set xs. list_all2 P (f x) (g x)"
  shows "list_all2 P (concat (map f xs)) (concat (map g xs))"
  using assms by (induction xs) (auto intro: list_all2_appendI)

lemma multi_apply_targets_Inr:
  assumes "multi_apply_targets h mem gtb gtl sizes fss pts = Inr (LL, TL, IL)"
  shows "\<exists>results. results \<noteq> []
      \<and> length results = length (zip gtb (zip gtl sizes))
      \<and> LL = map fst results \<and> TL = map (\<lambda>res. fst (snd res)) results
      \<and> IL = map (\<lambda>res. snd (snd res)) results
      \<and> (\<forall>k < length results. \<exists>ls \<in> set gtl.
            ppdet_target_single h (mem k) (gtb ! k) ls (sizes ! k) fss pts = Inr (results ! k))"
proof -
  let ?imgs = "zip gtb (zip gtl sizes)"
  from assms obtain results where
    ti: "target_images h mem 0 ?imgs fss pts = Inr results" and ne: "results \<noteq> []"
    and e: "LL = map fst results" "TL = map (\<lambda>res. fst (snd res)) results"
      "IL = map (\<lambda>res. snd (snd res)) results"
    by (auto simp: multi_apply_targets_def bindE_eq_Inr split: if_splits)
  from target_images_Inr[OF ti] have len: "length results = length ?imgs"
    and each: "\<forall>k < length ?imgs. ppdet_target_single h (mem (0 + k)) (fst (?imgs ! k))
            (fst (snd (?imgs ! k))) (snd (snd (?imgs ! k))) fss pts = Inr (results ! k)"
    by auto
  have "\<exists>ls \<in> set gtl. ppdet_target_single h (mem k) (gtb ! k) ls (sizes ! k) fss pts
          = Inr (results ! k)" if "k < length results" for k
  proof -
    from that len have k: "k < length gtb" "k < length gtl" "k < length sizes" by simp_all
    then have "?imgs ! k = (gtb ! k, gtl ! k, sizes ! k)" by simp
    with each that len have "ppdet_target_single h (mem k) (gtb ! k) (gtl ! k) (sizes ! k) fss pts
          = Inr (results ! k)" by (metis add_0 fst_conv snd_conv)
    with k(2) show ?thesis by (metis nth_mem)
  qed
  with ne len e show ?thesis by blast
qed

lemma loss_flatten_Inr:
  assumes "loss_flatten h mem cls bp gtb gtl = Inr fb"
  shows "list_all2 (cell_rel (set (concat gtl))) (fl_labels fb) (fl_ids fb)"
    and "fl_all_gt_labels fb = concat gtl"
    and "fl_num_imgs fb = batch4 (hd cls)"
proof -
  let ?fss = "map (\<lambda>featmap. (rows4 featmap, cols4 featmap)) cls"
  let ?pts = "get_points ?fss"
  let ?sizes = "label_size_loop 0 gtl"
  from assms obtain LL TL IL where
    ma: "multi_apply_targets h mem gtb gtl ?sizes ?fss ?pts = Inr (LL, TL, IL)" and
    fl: "flatten_levels flatten_grid LL = Inr (fl_labels fb)" and
    fi: "flatten_levels flatten_grid IL = Inr (fl_ids fb)" and
    rest: "fl_all_gt_labels fb = concat gtl" "fl_num_imgs fb = batch4 (hd cls)"
    by (auto simp: loss_flatten_def Let_def bindE_eq_Inr cat_Inr split: if_splits)
  from multi_apply_targets_Inr[OF ma] obtain results where
    ne: "results \<noteq> []" and
    LL: "LL = map fst results" and IL: "IL = map (\<lambda>res. snd (snd res)) results" and
    each: "\<forall>k < length results. \<exists>ls \<in> set gtl.
            ppdet_target_single h (mem k) (gtb ! k) ls (?sizes ! k) ?fss ?pts = Inr (results ! k)"
    by blast
  let ?n = "length (zip_target_levels h ?fss ?pts)"
  have res: "length (fst res) = ?n \<and> length (snd (snd res)) = ?n
      \<and> (\<forall>j < ?n. list_all2 (cell_rel (set (concat gtl)))
            (flatten_grid (fst res ! j)) (flatten_grid (snd (snd res) ! j)))"
    if "res \<in> set results" for res
  proof -
    from that obtain k where k: "k < length results" "results ! k = res"
      by (auto simp: in_set_conv_nth)
    obtain Ls Ts Is where r: "res = (Ls, Ts, Is)" by (cases res)
    from each k r obtain ls where ls: "ls \<in> set gtl"
      "ppdet_target_single h (mem k) (gtb ! k) ls (?sizes ! k) ?fss ?pts = Inr (Ls, Ts, Is)"
      by auto
    note s = target_single_level[OF ls(2)]
    have "list_all2 (cell_rel (set (concat gtl))) (flatten_grid (Ls ! j)) (flatten_grid (Is ! j))"
      if "j < ?n" for j
    proof -
      from that s(1) have "j < length Ls" by simp
      from target_level_rel[OF s(4)[OF this]]
      have "list_all2 (cell_rel (set ls)) (flatten_grid (Ls ! j)) (flatten_grid (Is ! j))" .
      moreover from ls(1) have "set ls \<subseteq> set (concat gtl)" by auto
      ultimately show ?thesis
        by (auto elim!: list_all2_mono intro: cell_rel_mono)
    qed
    with s(1,3) show ?thesis by (simp add: r)
  qed
  have zl: "zip_star LL = map (\<lambda>j. map (\<lambda>xs. xs ! j) LL) [0..<?n]"
    by (rule zip_star_uniform) (use ne res in \<open>auto simp: LL\<close>)
  have zi: "zip_star IL = map (\<lambda>j. map (\<lambda>xs. xs ! j) IL) [0..<?n]"
    by (rule zip_star_uniform) (use ne res in \<open>auto simp: IL\<close>)
  have labs: "fl_labels fb
      = concat (map (\<lambda>j. concat (map (\<lambda>res. flatten_grid (fst res ! j)) results)) [0..<?n])"
    unfolding flatten_levels_Inr(1)[OF fl] zl by (simp add: LL comp_def)
  have ids: "fl_ids fb
      = concat (map (\<lambda>j. concat (map (\<lambda>res. flatten_grid (snd (snd res) ! j)) results)) [0..<?n])"
    unfolding flatten_levels_Inr(1)[OF fi] zi by (simp add: IL comp_def)
  show "list_all2 (cell_rel (set (concat gtl))) (fl_labels fb) (fl_ids fb)"
    unfolding labs ids
    by (intro list_all2_concat_map ballI) (use res in auto)
  from rest show "fl_all_gt_labels fb = concat gtl" "fl_num_imgs fb = batch4 (hd cls)" .
qed

end
